theory Spec2Isabelle
  imports Complex_Main
begin

section \<open>Double or Nothing: settlement endpoint and statistics accessor\<close>

text \<open>
  The development embeds the two server-side route handlers of the repository:
  the settlement endpoint (the second module of \<^verbatim>\<open>src/app/layout.tsx\<close>, lines 51-360)
  and the statistics accessor (\<^verbatim>\<open>src/app/api/stats/route.ts\<close>).

  Conventions of the embedding.
  \<^item> A finite JavaScript number is the real number it denotes. In the settlement
    endpoint a product is the exact product rounded to the nearest double (ties to
    even), or an infinity beyond the largest double: the type \<open>number\<close> and the
    function \<open>fl\<close> below. In the statistics accessor the counters are read as reals and
    their sums are exact.
  \<^item> A JSON field that may be absent is an \<open>option\<close>; the request fields carry the
    types the interface gives them (strings and finite numbers).
  \<^item> Everything outside the process (environment variables, the RPC nodes, the random
    source, the clock, the hosted store) is a parameter: a record of what each call
    answers. The handlers return their response together with the list of outbound
    calls they made, in order.
  \<^item> A call that may raise returns an \<open>outcome\<close>; \<open>Throws m\<close> carries the
    \<^verbatim>\<open>message\<close> of the exception (empty when there is none).
\<close>

datatype 'a outcome = Returns 'a | Throws string

subsection \<open>JavaScript numbers\<close>

text \<open>
  A number is a double: a finite value, an infinity or NaN. A finite double is
  \<open>m * 2 ^ e\<close> for integers \<open>\<bar>m\<bar> < 2 ^ 53\<close> and \<open>- 1074 \<le> e \<le> 971\<close>; the largest is
  \<^verbatim>\<open>Number.MAX_VALUE\<close>.
\<close>

datatype number = Finite real | Infinity | NegInfinity | NaN

definition pow2 :: "int \<Rightarrow> real" where
  "pow2 p = (if 0 \<le> p then 2 ^ nat p else 1 / 2 ^ nat (- p))"

definition MAX_VALUE :: real where
  "MAX_VALUE = (2 ^ 53 - 1) * 2 ^ 971"

text \<open>The nearest integer, the even one of two that are equally near.\<close>

definition round_even :: "real \<Rightarrow> int" where
  "round_even q =
     (if q - of_int \<lfloor>q\<rfloor> < 1 / 2 then \<lfloor>q\<rfloor>
      else if 1 / 2 < q - of_int \<lfloor>q\<rfloor> then \<lfloor>q\<rfloor> + 1
      else if even \<lfloor>q\<rfloor> then \<lfloor>q\<rfloor> else \<lfloor>q\<rfloor> + 1)"

text \<open>The distance between neighbouring doubles around \<open>x\<close>: 52 binary places below the
  leading one, and never below the smallest subnormal step.\<close>

definition quantum :: "real \<Rightarrow> real" where
  "quantum x = pow2 (max (\<lfloor>log 2 \<bar>x\<bar>\<rfloor> - 52) (- 1074))"

text \<open>Rounding a real result to a double (IEEE 754, round to nearest, ties to even).\<close>

definition fl :: "real \<Rightarrow> number" where
  "fl x =
     (if x = 0 then Finite 0
      else let y = of_int (round_even (x / quantum x)) * quantum x
           in if MAX_VALUE < y then Infinity
              else if y < - MAX_VALUE then NegInfinity
              else Finite y)"

definition representable :: "real \<Rightarrow> bool" where
  "representable x \<longleftrightarrow> fl x = Finite x"

text \<open>\<^verbatim>\<open>a * c\<close> for a finite constant \<open>c\<close>, and \<^verbatim>\<open>Math.floor\<close>.\<close>

fun js_times :: "number \<Rightarrow> real \<Rightarrow> number" where
  "js_times (Finite a) c = fl (a * c)"
| "js_times Infinity c = (if 0 < c then Infinity else if c < 0 then NegInfinity else NaN)"
| "js_times NegInfinity c = (if 0 < c then NegInfinity else if c < 0 then Infinity else NaN)"
| "js_times NaN c = NaN"

fun Math_floor :: "number \<Rightarrow> number" where
  "Math_floor (Finite a) = Finite (of_int \<lfloor>a\<rfloor>)"
| "Math_floor v = v"

text \<open>\<^verbatim>\<open>JSON.stringify\<close> writes a number that is not finite as \<^verbatim>\<open>null\<close> (None).\<close>

fun JSON_number :: "number \<Rightarrow> real option" where
  "JSON_number (Finite a) = Some a"
| "JSON_number v = None"

subsection \<open>Settlement endpoint: data\<close>

type_synonym connection = string

datatype keypair = Keypair (publicKey: string)

text \<open>The value of a signature status: \<^verbatim>\<open>err\<close> is \<^verbatim>\<open>null\<close> (None) or a transaction error.\<close>

record signature_status =
  err :: "string option"
  confirmationStatus :: string

record transfer =
  fromPubkey :: string
  toPubkey :: string
  lamports :: number
  recentBlockhash :: string
  feePayer :: string

text \<open>
  The environment of one invocation of the settlement handler. \<open>SystemProgram_transfer\<close>
  is the library's encoding of the transfer instruction from its sender, receiver and
  lamports; it raises on a value it cannot write as an unsigned 64-bit integer.
\<close>

record world =
  SOLANA_RPC_ENDPOINT :: "string option"
  SOLANA_RPC_ENDPOINT_2 :: "string option"
  SOLANA_RPC_ENDPOINT_3 :: "string option"
  BANK_PRIVATE_KEY :: "string option"
  getSlot :: "connection \<Rightarrow> bool"
  getSignatureStatus :: "connection \<Rightarrow> string \<Rightarrow> signature_status option outcome"
  bs58_fromSecretKey :: "string \<Rightarrow> keypair option"
  json_fromSecretKey :: "string \<Rightarrow> keypair option"
  Math_random :: real
  PublicKey :: "string \<Rightarrow> string outcome"
  SystemProgram_transfer :: "string \<Rightarrow> string \<Rightarrow> number \<Rightarrow> unit outcome"
  getLatestBlockhash :: "connection \<Rightarrow> string outcome"
  sendRawTransaction :: "connection \<Rightarrow> transfer \<Rightarrow> string outcome"
  startTime :: int
  Date_now :: int

text \<open>The outbound calls a settlement round can make.\<close>

datatype event =
    EvGetSlot connection
  | EvGetSignatureStatus connection string
  | EvMathRandom
  | EvSendPayout string number
  | EvSendRawTransaction connection transfer

text \<open>The parsed request body \<^verbatim>\<open>{ signature, playerWallet, betAmount }\<close>.\<close>

record play_body =
  signature :: "string option"
  playerWallet :: "string option"
  betAmount :: "real option"

text \<open>
  The JSON response with its HTTP status. A key whose value is \<^verbatim>\<open>undefined\<close> is not
  serialised: it is None here.
\<close>

record play_response =
  status :: nat
  error :: "string option"
  success :: "bool option"
  result :: "string option"
  res_betAmount :: "real option"
  potentialWin :: "number option"
  payoutPending :: "bool option"
  payoutError :: "string option"
  payoutSignature :: "string option"
  message :: "string option"
  processingTime :: "int option"

datatype verification =
  Verification (valid: bool) (ver_error: "string option") (actualAmount: "real option")

datatype payout =
  Payout (pay_success: bool) (pay_signature: "string option") (pay_error: "string option")

subsection \<open>Settlement endpoint: operations\<close>

text \<open>The JavaScript idiom \<^verbatim>\<open>a || b\<close> on a string that may be absent.\<close>

definition or_else :: "string option \<Rightarrow> string \<Rightarrow> string" where
  "or_else a b = (case a of None \<Rightarrow> b | Some s \<Rightarrow> if s = [] then b else s)"

text \<open>\<^verbatim>\<open>RPC_ENDPOINTS\<close>: the configured endpoints that are set and non-empty, then the two
  public ones.\<close>

definition RPC_ENDPOINTS :: "'a world_scheme \<Rightarrow> string list" where
  "RPC_ENDPOINTS w =
     List.map_filter (\<lambda>e. case e of None \<Rightarrow> None | Some s \<Rightarrow> if s = [] then None else Some s)
       [SOLANA_RPC_ENDPOINT w, SOLANA_RPC_ENDPOINT_2 w, SOLANA_RPC_ENDPOINT_3 w,
        Some ''https://api.mainnet-beta.solana.com'', Some ''https://rpc.ankr.com/solana'']"

text \<open>\<^verbatim>\<open>new Connection(endpoint)\<close> raises unless the endpoint starts with \<^verbatim>\<open>http:\<close> or
  \<^verbatim>\<open>https:\<close> (the library's check of the URL).\<close>

definition http_url :: "string \<Rightarrow> bool" where
  "http_url endpoint \<longleftrightarrow> take 5 endpoint = ''http:'' \<or> take 6 endpoint = ''https:''"

text \<open>The loop of \<^verbatim>\<open>getConnection\<close>: the first endpoint for which a connection is built
  and whose health check answers. An endpoint whose connection cannot be built is
  passed over in the \<^verbatim>\<open>catch\<close>, before any health check.\<close>

fun probe :: "'a world_scheme \<Rightarrow> string list \<Rightarrow> connection option \<times> event list" where
  "probe w [] = (None, [])"
| "probe w (endpoint # rest) =
     (if \<not> http_url endpoint then probe w rest
      else if getSlot w endpoint then (Some endpoint, [EvGetSlot endpoint])
      else (case probe w rest of (r, evs) \<Rightarrow> (r, EvGetSlot endpoint # evs)))"

text \<open>
  \<^verbatim>\<open>getConnection\<close>: falls back to the first endpoint when no health check answers.
  The fallback is outside the \<^verbatim>\<open>try\<close>: when the connection to the first endpoint cannot
  be built, the exception leaves the function.
\<close>

definition getConnection :: "'a world_scheme \<Rightarrow> connection outcome \<times> event list" where
  "getConnection w =
     (case probe w (RPC_ENDPOINTS w) of
        (Some conn, evs) \<Rightarrow> (Returns conn, evs)
      | (None, evs) \<Rightarrow>
          (case RPC_ENDPOINTS w of
             [] \<Rightarrow> (Throws ''Endpoint URL must start with `http:` or `https:`.'', evs)
           | first # _ \<Rightarrow>
               if http_url first then (Returns first, evs)
               else (Throws ''Endpoint URL must start with `http:` or `https:`.'', evs)))"

definition getBankKeypair :: "'a world_scheme \<Rightarrow> keypair option" where
  "getBankKeypair w =
     (case BANK_PRIVATE_KEY w of
        None \<Rightarrow> None
      | Some privateKey \<Rightarrow>
          if privateKey = [] then None
          else (case bs58_fromSecretKey w privateKey of
                  Some k \<Rightarrow> Some k
                | None \<Rightarrow> json_fromSecretKey w privateKey))"

definition verifyTransaction ::
  "'a world_scheme \<Rightarrow> connection \<Rightarrow> string \<Rightarrow> string \<Rightarrow> real \<Rightarrow> verification \<times> event list" where
  "verifyTransaction w conn sig expectedSender expectedAmount =
     ((case getSignatureStatus w conn sig of
         Throws e \<Rightarrow> Verification True None (Some expectedAmount)
       | Returns None \<Rightarrow> Verification True None (Some expectedAmount)
       | Returns (Some st) \<Rightarrow>
           if err st \<noteq> None then Verification False (Some ''Transaction failed on-chain'') None
           else Verification True None (Some expectedAmount)),
      [EvGetSignatureStatus conn sig])"

definition LAMPORTS_PER_SOL :: real where
  "LAMPORTS_PER_SOL = 1000000000"

text \<open>
  \<^verbatim>\<open>sendPayout\<close>. Everything is inside its \<^verbatim>\<open>try\<close>: the public key of the winner, the
  lamports \<^verbatim>\<open>Math.floor(amount * LAMPORTS_PER_SOL)\<close>, the transfer instruction, the
  blockhash and the broadcast may each raise, and each exception is the failure answer.
\<close>

definition sendPayout ::
  "'a world_scheme \<Rightarrow> connection \<Rightarrow> keypair \<Rightarrow> string \<Rightarrow> number \<Rightarrow> payout \<times> event list" where
  "sendPayout w conn bankKeypair winnerAddress amount =
     (case PublicKey w winnerAddress of
        Throws m \<Rightarrow> (Payout False None (Some (or_else (Some m) ''Payout failed'')),
                      [EvSendPayout winnerAddress amount])
      | Returns winnerPubkey \<Rightarrow>
          (let units = Math_floor (js_times amount LAMPORTS_PER_SOL) in
           case SystemProgram_transfer w (publicKey bankKeypair) winnerPubkey units of
             Throws m \<Rightarrow> (Payout False None (Some (or_else (Some m) ''Payout failed'')),
                           [EvSendPayout winnerAddress amount])
           | Returns u \<Rightarrow>
               (case getLatestBlockhash w conn of
                  Throws m \<Rightarrow> (Payout False None (Some (or_else (Some m) ''Payout failed'')),
                                [EvSendPayout winnerAddress amount])
                | Returns blockhash \<Rightarrow>
                    (let tx = \<lparr>fromPubkey = publicKey bankKeypair, toPubkey = winnerPubkey,
                               lamports = units, recentBlockhash = blockhash,
                               feePayer = publicKey bankKeypair\<rparr>
                     in (case sendRawTransaction w conn tx of
                           Throws m \<Rightarrow>
                             Payout False None (Some (or_else (Some m) ''Payout failed''))
                         | Returns sg \<Rightarrow> Payout True (Some sg) None,
                         [EvSendPayout winnerAddress amount,
                          EvSendRawTransaction conn tx])))))"

definition determineResult :: "'a world_scheme \<Rightarrow> string \<times> event list" where
  "determineResult w = (if Math_random w < 0.5 then ''win'' else ''loss'', [EvMathRandom])"

definition error_response :: "nat \<Rightarrow> string \<Rightarrow> play_response" where
  "error_response code msg =
     \<lparr>status = code, error = Some msg, success = None, result = None, res_betAmount = None,
      potentialWin = None, payoutPending = None, payoutError = None, payoutSignature = None,
      message = None, processingTime = None\<rparr>"

text \<open>
  Step 3 of the handler: on a win, the payout. \<open>Inl\<close> is the response of an early
  \<^verbatim>\<open>return\<close>, \<open>Inr\<close> the value of \<^verbatim>\<open>payoutSignature\<close> with which the handler goes on.
\<close>

definition payout_step ::
  "'a world_scheme \<Rightarrow> connection \<Rightarrow> string \<Rightarrow> real \<Rightarrow> number \<Rightarrow> string
     \<Rightarrow> (play_response + string option) \<times> event list" where
  "payout_step w conn wallet bet win res =
     (if res = ''win'' then
        (case getBankKeypair w of
           None \<Rightarrow>
             (Inl \<lparr>status = 200, error = None, success = Some True,
                   result = Some ''win'', res_betAmount = Some bet,
                   potentialWin = Some win, payoutPending = Some True,
                   payoutError = None, payoutSignature = None,
                   message = Some ''Payout will be processed manually'',
                   processingTime = None\<rparr>, [])
         | Some bankKeypair \<Rightarrow>
             (case sendPayout w conn bankKeypair wallet win of (pay, ev3) \<Rightarrow>
                if \<not> pay_success pay then
                  (Inl \<lparr>status = 200, error = None, success = Some True,
                        result = Some ''win'', res_betAmount = Some bet,
                        potentialWin = Some win, payoutPending = None,
                        payoutError = pay_error pay, payoutSignature = None,
                        message = Some ''You won! Payout will be processed manually.'',
                        processingTime = None\<rparr>, ev3)
                else (Inr (pay_signature pay), ev3)))
      else (Inr None, []))"

text \<open>The handler from its step 1 on, for a body that passed the input checks.\<close>

definition settle ::
  "'a world_scheme \<Rightarrow> string \<Rightarrow> string \<Rightarrow> real \<Rightarrow> play_response \<times> event list" where
  "settle w sig wallet bet =
     (case getConnection w of
        (Throws m, ev0) \<Rightarrow> (error_response 500 (or_else (Some m) ''Internal server error''), ev0)
      | (Returns conn, ev0) \<Rightarrow>
          (case verifyTransaction w conn sig wallet bet of (verification, ev1) \<Rightarrow>
             if \<not> valid verification then
               (error_response 400
                  (or_else (ver_error verification) ''Transaction verification failed''),
                ev0 @ ev1)
             else
               (case determineResult w of (res, ev2) \<Rightarrow>
                  let win = js_times (Finite bet) 2 in
                  (case payout_step w conn wallet bet win res of
                     (Inl early, ev3) \<Rightarrow> (early, ev0 @ ev1 @ ev2 @ ev3)
                   | (Inr signed, ev3) \<Rightarrow>
                       (\<lparr>status = 200, error = None, success = Some True,
                         result = Some res, res_betAmount = Some bet,
                         potentialWin = Some (if res = ''win'' then win else Finite 0),
                         payoutPending = None, payoutError = None,
                         payoutSignature = signed, message = None,
                         processingTime = Some (Date_now w - startTime w)\<rparr>,
                        ev0 @ ev1 @ ev2 @ ev3)))))"

text \<open>
  \<^verbatim>\<open>POST\<close> of the settlement endpoint. The argument is what \<^verbatim>\<open>request.json()\<close> and the
  destructuring of the body give: the three fields, or an exception (a body that is
  not JSON, or that is \<^verbatim>\<open>null\<close>).
\<close>

definition POST_play :: "'a world_scheme \<Rightarrow> play_body outcome \<Rightarrow> play_response \<times> event list" where
  "POST_play w request =
     (case request of
        Throws m \<Rightarrow> (error_response 500 (or_else (Some m) ''Internal server error''), [])
      | Returns body \<Rightarrow>
          (case signature body of
             None \<Rightarrow> (error_response 400 ''Missing transaction signature'', [])
           | Some sig \<Rightarrow>
               if sig = [] then (error_response 400 ''Missing transaction signature'', [])
               else
                 (case playerWallet body of
                    None \<Rightarrow> (error_response 400 ''Missing player wallet address'', [])
                  | Some wallet \<Rightarrow>
                      if wallet = [] then (error_response 400 ''Missing player wallet address'', [])
                      else
                        (case betAmount body of
                           None \<Rightarrow> (error_response 400 ''Invalid bet amount'', [])
                         | Some bet \<Rightarrow>
                             if bet = 0 \<or> bet \<le> 0 then (error_response 400 ''Invalid bet amount'', [])
                             else settle w sig wallet bet))))"

subsection \<open>Statistics accessor: data\<close>

record GameHistoryItem =
  item_result :: string
  item_amount :: real
  item_timestamp :: int
  item_playerWallet :: "string option"

record Stats =
  totalBets :: int
  totalWagered :: real
  wins :: int
  losses :: int
  gameHistory :: "GameHistoryItem list"

definition defaultStats :: Stats where
  "defaultStats = \<lparr>totalBets = 0, totalWagered = 0, wins = 0, losses = 0, gameHistory = []\<rparr>"

text \<open>
  The hosted store, as the handlers use it: the table \<^verbatim>\<open>global_stats\<close> holds at most the
  one row with \<^verbatim>\<open>id = 1\<close>, whose counters may be \<^verbatim>\<open>null\<close>; the table \<^verbatim>\<open>game_history\<close> is
  kept in insertion order. The store returns the values that were written to it.
\<close>

record stats_row =
  total_bets :: "int option"
  total_wagered :: "real option"
  row_wins :: "int option"
  row_losses :: "int option"
  updated_at :: int

record history_row =
  row_result :: string
  row_amount :: real
  player_wallet :: "string option"
  row_timestamp :: int

record store =
  global_stats :: "stats_row option"
  game_history :: "history_row list"

datatype db_error = DbError (code: string) (db_message: string)

text \<open>
  What happens to one request to the store: it is served, it is answered with an error
  object (the client's \<^verbatim>\<open>{ data, error }\<close> result), or the awaited call rejects.
\<close>

datatype fault = NoFault | Fails db_error | Rejects string

text \<open>\<^verbatim>\<open>from('global_stats').select('*').eq('id', 1).single()\<close>: no row is the error
  \<^verbatim>\<open>PGRST116\<close>.\<close>

definition select_global_stats ::
  "store \<Rightarrow> fault \<Rightarrow> (stats_row option \<times> db_error option) outcome" where
  "select_global_stats s f =
     (case f of
        Rejects m \<Rightarrow> Throws m
      | Fails e \<Rightarrow> Returns (None, Some e)
      | NoFault \<Rightarrow>
          (case global_stats s of
             None \<Rightarrow> Returns (None, Some (DbError ''PGRST116'' ''no rows returned''))
           | Some row \<Rightarrow> Returns (Some row, None)))"

text \<open>\<^verbatim>\<open>from('game_history').select('*').order('timestamp', { ascending: false }).limit(100)\<close>;
  rows of equal timestamp come latest insertion first.\<close>

definition select_game_history ::
  "store \<Rightarrow> fault \<Rightarrow> (history_row list option \<times> db_error option) outcome" where
  "select_game_history s f =
     (case f of
        Rejects m \<Rightarrow> Throws m
      | Fails e \<Rightarrow> Returns (None, Some e)
      | NoFault \<Rightarrow> Returns (Some (take 100 (rev (sort_key row_timestamp (game_history s)))), None))"

definition insert_game_history ::
  "store \<Rightarrow> fault \<Rightarrow> history_row \<Rightarrow> db_error option outcome \<times> store" where
  "insert_game_history s f row =
     (case f of
        Rejects m \<Rightarrow> (Throws m, s)
      | Fails e \<Rightarrow> (Returns (Some e), s)
      | NoFault \<Rightarrow> (Returns None, s\<lparr>game_history := game_history s @ [row]\<rparr>))"

definition upsert_global_stats ::
  "store \<Rightarrow> fault \<Rightarrow> stats_row \<Rightarrow> db_error option outcome \<times> store" where
  "upsert_global_stats s f row =
     (case f of
        Rejects m \<Rightarrow> (Throws m, s)
      | Fails e \<Rightarrow> (Returns (Some e), s)
      | NoFault \<Rightarrow> (Returns None, s\<lparr>global_stats := Some row\<rparr>))"

text \<open>The request body \<^verbatim>\<open>{ result, amount, playerWallet }\<close> of a statistics write.\<close>

record stats_body =
  body_result :: "string option"
  body_amount :: "real option"
  body_playerWallet :: "string option"

record stats_response =
  st_status :: nat
  st_error :: "string option"
  st_success :: "bool option"
  st_stats :: "Stats option"

text \<open>The faults and clock readings of one statistics write, in the order of its calls.\<close>

record stats_env =
  read1_stats :: fault
  read1_history :: fault
  insert_history :: fault
  insert_time :: int
  upsert_stats :: fault
  upsert_time :: int
  read2_stats :: fault
  read2_history :: fault

subsection \<open>Statistics accessor: operations\<close>

text \<open>\<^verbatim>\<open>x || 0\<close> on a column that may be \<^verbatim>\<open>null\<close>.\<close>

definition or0 :: "'a::zero option \<Rightarrow> 'a" where
  "or0 x = (case x of None \<Rightarrow> 0 | Some v \<Rightarrow> v)"

text \<open>A history row as an entry of the answer; timestamps are milliseconds on both sides.\<close>

definition item_of_row :: "history_row \<Rightarrow> GameHistoryItem" where
  "item_of_row item =
     \<lparr>item_result = row_result item, item_amount = row_amount item,
      item_timestamp = row_timestamp item, item_playerWallet = player_wallet item\<rparr>"

text \<open>
  \<^verbatim>\<open>readStats\<close> awaits the store twice. \<open>read_begin\<close> is the function up to its first
  \<^verbatim>\<open>return\<close>: \<open>Inl\<close> is the value returned there (or in the \<^verbatim>\<open>catch\<close>), \<open>Inr\<close> the
  \<^verbatim>\<open>statsData\<close> with which it goes on. \<open>read_finish\<close> is the rest.
\<close>

definition read_begin :: "store \<Rightarrow> fault \<Rightarrow> Stats + stats_row option" where
  "read_begin s f =
     (case select_global_stats s f of
        Throws m \<Rightarrow> Inl defaultStats
      | Returns (statsData, statsError) \<Rightarrow>
          (case statsError of
             Some e \<Rightarrow> if code e \<noteq> ''PGRST116'' then Inl defaultStats else Inr statsData
           | None \<Rightarrow> Inr statsData))"

definition read_finish :: "store \<Rightarrow> fault \<Rightarrow> stats_row option \<Rightarrow> Stats" where
  "read_finish s f statsData =
     (case select_game_history s f of
        Throws m \<Rightarrow> defaultStats
      | Returns (historyData, historyError) \<Rightarrow>
          (let history = map item_of_row (case historyData of None \<Rightarrow> [] | Some rows \<Rightarrow> rows)
           in case statsData of
                Some row \<Rightarrow>
                  \<lparr>totalBets = or0 (total_bets row), totalWagered = or0 (total_wagered row),
                   wins = or0 (row_wins row), losses = or0 (row_losses row),
                   gameHistory = history\<rparr>
              | None \<Rightarrow> defaultStats\<lparr>gameHistory := history\<rparr>))"

definition readStats :: "store \<Rightarrow> fault \<Rightarrow> fault \<Rightarrow> Stats" where
  "readStats s f_stats f_history =
     (case read_begin s f_stats of
        Inl early \<Rightarrow> early
      | Inr statsData \<Rightarrow> read_finish s f_history statsData)"

definition writeStats :: "store \<Rightarrow> fault \<Rightarrow> int \<Rightarrow> Stats \<Rightarrow> unit outcome \<times> store" where
  "writeStats s f now stats =
     (case upsert_global_stats s f
             \<lparr>total_bets = Some (totalBets stats), total_wagered = Some (totalWagered stats),
              row_wins = Some (wins stats), row_losses = Some (losses stats),
              updated_at = now\<rparr> of
        (Throws m, s') \<Rightarrow> (Throws m, s')
      | (Returns (Some statsError), s') \<Rightarrow> (Throws (db_message statsError), s')
      | (Returns None, s') \<Rightarrow> (Returns (), s'))"

text \<open>\<^verbatim>\<open>GET\<close>: \<open>readStats\<close> has no exit by exception, so the handler's own \<^verbatim>\<open>catch\<close> is
  never entered; the status is that of \<^verbatim>\<open>NextResponse.json\<close> without options.\<close>

definition GET_stats :: "store \<Rightarrow> fault \<Rightarrow> fault \<Rightarrow> nat \<times> Stats" where
  "GET_stats s f_stats f_history =
     (let stats = readStats s f_stats f_history;
          recentHistory = take 20 (gameHistory stats)
      in (200, stats\<lparr>gameHistory := recentHistory\<rparr>))"

definition stats_error :: "nat \<Rightarrow> string \<Rightarrow> stats_response" where
  "stats_error c msg = \<lparr>st_status = c, st_error = Some msg, st_success = None, st_stats = None\<rparr>"

definition new_history_row :: "stats_env \<Rightarrow> string \<Rightarrow> real \<Rightarrow> string option \<Rightarrow> history_row" where
  "new_history_row env res amt wallet =
     \<lparr>row_result = res, row_amount = amt,
      player_wallet = (case wallet of None \<Rightarrow> None | Some a \<Rightarrow> if a = [] then None else Some a),
      row_timestamp = insert_time env\<rparr>"

definition updatedStats :: "Stats \<Rightarrow> string \<Rightarrow> real \<Rightarrow> Stats" where
  "updatedStats stats res amt =
     \<lparr>totalBets = totalBets stats + 1,
      totalWagered = totalWagered stats + amt,
      wins = wins stats + (if res = ''win'' then 1 else 0),
      losses = losses stats + (if res = ''loss'' then 1 else 0),
      gameHistory = gameHistory stats\<rparr>"

text \<open>The statistics write after its input check: read, insert, update, write, read.\<close>

definition apply_round ::
  "stats_env \<Rightarrow> store \<Rightarrow> string \<Rightarrow> real \<Rightarrow> string option \<Rightarrow> stats_response \<times> store" where
  "apply_round env s res amt wallet =
     (let stats = readStats s (read1_stats env) (read1_history env) in
      case insert_game_history s (insert_history env) (new_history_row env res amt wallet) of
        (Throws m, s1) \<Rightarrow> (stats_error 500 (or_else (Some m) ''Failed to update stats''), s1)
      | (Returns historyError, s1) \<Rightarrow>
          (case writeStats s1 (upsert_stats env) (upsert_time env) (updatedStats stats res amt) of
             (Throws m, s2) \<Rightarrow> (stats_error 500 (or_else (Some m) ''Failed to update stats''), s2)
           | (Returns u, s2) \<Rightarrow>
               (let finalStats = readStats s2 (read2_stats env) (read2_history env)
                in (\<lparr>st_status = 200, st_error = None, st_success = Some True,
                     st_stats = Some finalStats\<rparr>, s2))))"

text \<open>\<^verbatim>\<open>POST\<close> of the statistics accessor, on what \<^verbatim>\<open>request.json()\<close> and the destructuring
  give.\<close>

definition POST_stats ::
  "stats_env \<Rightarrow> store \<Rightarrow> stats_body outcome \<Rightarrow> stats_response \<times> store" where
  "POST_stats env s request =
     (case request of
        Throws m \<Rightarrow> (stats_error 500 (or_else (Some m) ''Failed to update stats''), s)
      | Returns body \<Rightarrow>
          (case body_result body of
             None \<Rightarrow> (stats_error 400 ''Invalid request data'', s)
           | Some res \<Rightarrow>
               (case body_amount body of
                  None \<Rightarrow> (stats_error 400 ''Invalid request data'', s)
                | Some amt \<Rightarrow>
                    if res = [] \<or> amt = 0 \<or> (res \<noteq> ''win'' \<and> res \<noteq> ''loss'')
                    then (stats_error 400 ''Invalid request data'', s)
                    else apply_round env s res amt (body_playerWallet body))))"

subsection \<open>Reading a list of outbound calls\<close>

fun draws :: "event list \<Rightarrow> nat" where
  "draws [] = 0"
| "draws (EvMathRandom # evs) = Suc (draws evs)"
| "draws (_ # evs) = draws evs"

fun payout_calls :: "event list \<Rightarrow> (string \<times> number) list" where
  "payout_calls [] = []"
| "payout_calls (EvSendPayout winner amount # evs) = (winner, amount) # payout_calls evs"
| "payout_calls (_ # evs) = payout_calls evs"

fun broadcasts :: "event list \<Rightarrow> transfer list" where
  "broadcasts [] = []"
| "broadcasts (EvSendRawTransaction conn tx # evs) = tx # broadcasts evs"
| "broadcasts (_ # evs) = broadcasts evs"

fun lookups :: "event list \<Rightarrow> (connection \<times> string) list" where
  "lookups [] = []"
| "lookups (EvGetSignatureStatus conn sig # evs) = (conn, sig) # lookups evs"
| "lookups (_ # evs) = lookups evs"

text \<open>The on-chain status lookup answers with a status that marks failure.\<close>

definition marks_failure :: "signature_status option outcome \<Rightarrow> bool" where
  "marks_failure r = (case r of Returns (Some st) \<Rightarrow> err st \<noteq> None | _ \<Rightarrow> False)"

subsection \<open>Statistics writes whose store requests interleave\<close>

text \<open>
  Each \<^verbatim>\<open>await\<close> of the statistics write is one request to the store, and between two of
  them another invocation of the handler may run. The points of one invocation, after
  its input check, with the local variables that are live there:
\<close>

datatype point =
    AtReadStats1
  | AtReadHistory1 "stats_row option"
  | AtInsert Stats
  | AtWrite Stats
  | AtReadStats2
  | AtReadHistory2 "stats_row option"
  | Finished stats_response

type_synonym round = "stats_env \<times> string \<times> real \<times> string option"

fun step :: "round \<Rightarrow> point \<Rightarrow> store \<Rightarrow> point \<times> store" where
  "step (env, res, amt, wallet) AtReadStats1 s =
     (case read_begin s (read1_stats env) of
        Inl early \<Rightarrow> (AtInsert early, s)
      | Inr statsData \<Rightarrow> (AtReadHistory1 statsData, s))"
| "step (env, res, amt, wallet) (AtReadHistory1 statsData) s =
     (AtInsert (read_finish s (read1_history env) statsData), s)"
| "step (env, res, amt, wallet) (AtInsert stats) s =
     (case insert_game_history s (insert_history env) (new_history_row env res amt wallet) of
        (Throws m, s1) \<Rightarrow>
          (Finished (stats_error 500 (or_else (Some m) ''Failed to update stats'')), s1)
      | (Returns historyError, s1) \<Rightarrow> (AtWrite stats, s1))"
| "step (env, res, amt, wallet) (AtWrite stats) s =
     (case writeStats s (upsert_stats env) (upsert_time env) (updatedStats stats res amt) of
        (Throws m, s2) \<Rightarrow>
          (Finished (stats_error 500 (or_else (Some m) ''Failed to update stats'')), s2)
      | (Returns u, s2) \<Rightarrow> (AtReadStats2, s2))"
| "step (env, res, amt, wallet) AtReadStats2 s =
     (case read_begin s (read2_stats env) of
        Inl early \<Rightarrow>
          (Finished \<lparr>st_status = 200, st_error = None, st_success = Some True,
                     st_stats = Some early\<rparr>, s)
      | Inr statsData \<Rightarrow> (AtReadHistory2 statsData, s))"
| "step (env, res, amt, wallet) (AtReadHistory2 statsData) s =
     (Finished \<lparr>st_status = 200, st_error = None, st_success = Some True,
                st_stats = Some (read_finish s (read2_history env) statsData)\<rparr>, s)"
| "step (env, res, amt, wallet) (Finished r) s = (Finished r, s)"

fun run_round :: "round \<Rightarrow> nat \<Rightarrow> point \<times> store \<Rightarrow> point \<times> store" where
  "run_round r 0 st = st"
| "run_round r (Suc n) (pt, s) = run_round r n (step r pt s)"

datatype turn = First | Second

text \<open>Two invocations on one store; the schedule says whose request the store serves next.\<close>

fun interleave ::
  "round \<Rightarrow> round \<Rightarrow> turn list \<Rightarrow> point \<times> point \<times> store \<Rightarrow> point \<times> point \<times> store" where
  "interleave ra rb [] st = st"
| "interleave ra rb (First # sch) (pa, pb, s) =
     (case step ra pa s of (pa', s') \<Rightarrow> interleave ra rb sch (pa', pb, s'))"
| "interleave ra rb (Second # sch) (pa, pb, s) =
     (case step rb pb s of (pb', s') \<Rightarrow> interleave ra rb sch (pa, pb', s'))"

definition no_faults :: "stats_env \<Rightarrow> bool" where
  "no_faults env \<longleftrightarrow>
     read1_stats env = NoFault \<and> read1_history env = NoFault \<and> insert_history env = NoFault \<and>
     upsert_stats env = NoFault \<and> read2_stats env = NoFault \<and> read2_history env = NoFault"

subsection \<open>Reading the store and the answers\<close>

text \<open>The four counters the store holds (zero when the row is missing or a column is
  \<^verbatim>\<open>null\<close>), and the four counters of an answer.\<close>

definition aggregate :: "store \<Rightarrow> int \<times> real \<times> int \<times> int" where
  "aggregate s =
     (case global_stats s of
        None \<Rightarrow> (0, 0, 0, 0)
      | Some row \<Rightarrow>
          (or0 (total_bets row), or0 (total_wagered row), or0 (row_wins row), or0 (row_losses row)))"

definition counters :: "Stats \<Rightarrow> int \<times> real \<times> int \<times> int" where
  "counters stats = (totalBets stats, totalWagered stats, wins stats, losses stats)"

text \<open>One round added to four counters: one more bet, the amount, and the matching
  counter.\<close>

definition increment :: "string \<Rightarrow> real \<Rightarrow> int \<times> real \<times> int \<times> int \<Rightarrow> int \<times> real \<times> int \<times> int" where
  "increment res amt c =
     (case c of (bets, wagered, won, lost) \<Rightarrow>
        (bets + 1, wagered + amt, won + (if res = ''win'' then 1 else 0),
         lost + (if res = ''loss'' then 1 else 0)))"

definition newest_first :: "GameHistoryItem list \<Rightarrow> bool" where
  "newest_first h = sorted_wrt (\<lambda>a b. item_timestamp b \<le> item_timestamp a) h"

text \<open>The row \<^verbatim>\<open>writeStats\<close> hands to the upsert.\<close>

definition stored_row :: "Stats \<Rightarrow> int \<Rightarrow> stats_row" where
  "stored_row stats now =
     \<lparr>total_bets = Some (totalBets stats), total_wagered = Some (totalWagered stats),
      row_wins = Some (wins stats), row_losses = Some (losses stats), updated_at = now\<rparr>"

subsection \<open>Concrete rounds\<close>

text \<open>A settlement environment in which everything answers, lamports are encoded when
  they are below \<open>2 ^ 64\<close>, and the draw is 0.25; and three variations: a transfer that
  failed on-chain, no signing key, a failing broadcast.\<close>

definition demo_world :: world where
  "demo_world =
     \<lparr>SOLANA_RPC_ENDPOINT = Some ''https://rpc.example'', SOLANA_RPC_ENDPOINT_2 = None,
      SOLANA_RPC_ENDPOINT_3 = None, BANK_PRIVATE_KEY = Some ''k'',
      getSlot = (\<lambda>c. True), getSignatureStatus = (\<lambda>c sg. Returns None),
      bs58_fromSecretKey = (\<lambda>k. Some (Keypair ''Bank'')), json_fromSecretKey = (\<lambda>k. None),
      Math_random = 1 / 4, PublicKey = (\<lambda>a. Returns a),
      SystemProgram_transfer =
        (\<lambda>sender receiver units.
           case units of
             Finite v \<Rightarrow> if 0 \<le> v \<and> v < 2 ^ 64 then Returns () else Throws ''out of range''
           | _ \<Rightarrow> Throws ''The number cannot be converted to a BigInt''),
      getLatestBlockhash = (\<lambda>c. Returns ''h''), sendRawTransaction = (\<lambda>c tx. Returns ''paid''),
      startTime = 1000, Date_now = 1250\<rparr>"

definition failed_world :: world where
  "failed_world =
     demo_world\<lparr>getSignatureStatus :=
       (\<lambda>c sg. Returns (Some \<lparr>err = Some ''InstructionError'', confirmationStatus = ''confirmed''\<rparr>))\<rparr>"

definition keyless_world :: world where
  "keyless_world = demo_world\<lparr>BANK_PRIVATE_KEY := None\<rparr>"

definition offline_world :: world where
  "offline_world = demo_world\<lparr>sendRawTransaction := (\<lambda>c tx. Throws ''Blockhash not found'')\<rparr>"

text \<open>The double nearest to 0.3, and a bet of that amount; a bet whose double overflows.\<close>

definition double_0_3 :: real where
  "double_0_3 = 5404319552844595 / 18014398509481984"

definition demo_body :: play_body where
  "demo_body = \<lparr>signature = Some ''sig'', playerWallet = Some ''Alice'', betAmount = Some double_0_3\<rparr>"

definition huge_wager :: real where
  "huge_wager = 2 ^ 1023"

definition huge_body :: play_body where
  "huge_body = \<lparr>signature = Some ''sig'', playerWallet = Some ''Alice'', betAmount = Some huge_wager\<rparr>"

text \<open>Statistics writes: environments without faults, stores and bodies.\<close>

definition quiet_env :: stats_env where
  "quiet_env =
     \<lparr>read1_stats = NoFault, read1_history = NoFault, insert_history = NoFault, insert_time = 7,
      upsert_stats = NoFault, upsert_time = 8, read2_stats = NoFault, read2_history = NoFault\<rparr>"

definition later_env :: stats_env where
  "later_env = quiet_env\<lparr>insert_time := 9, upsert_time := 10\<rparr>"

definition zero_row :: stats_row where
  "zero_row = \<lparr>total_bets = Some 0, total_wagered = Some 0, row_wins = Some 0,
               row_losses = Some 0, updated_at = 0\<rparr>"

definition zero_store :: store where
  "zero_store = \<lparr>global_stats = Some zero_row, game_history = []\<rparr>"

definition empty_store :: store where
  "empty_store = \<lparr>global_stats = None, game_history = []\<rparr>"

definition busy_store :: store where
  "busy_store =
     \<lparr>global_stats = Some \<lparr>total_bets = Some 5, total_wagered = Some 1, row_wins = Some 3,
                            row_losses = Some 2, updated_at = 3\<rparr>,
      game_history = [\<lparr>row_result = ''win'', row_amount = 1 / 5, player_wallet = None,
                       row_timestamp = 3\<rparr>]\<rparr>"

definition win_body :: stats_body where
  "win_body = \<lparr>body_result = Some ''win'', body_amount = Some (1 / 5), body_playerWallet = None\<rparr>"

definition loss_body :: stats_body where
  "loss_body = \<lparr>body_result = Some ''loss'', body_amount = Some (3 / 10),
                body_playerWallet = Some ''Bob''\<rparr>"

definition zero_body :: stats_body where
  "zero_body = \<lparr>body_result = Some ''win'', body_amount = Some 0, body_playerWallet = None\<rparr>"

definition timeout_error :: db_error where
  "timeout_error = DbError ''57014'' ''canceling statement due to statement timeout''"

definition check_error :: db_error where
  "check_error = DbError ''23514'' ''new row violates check constraint''"

text \<open>A schedule of two writes in which both read the aggregate before either writes it.\<close>

definition lost_update_schedule :: "turn list" where
  "lost_update_schedule =
     [First, First, Second, Second, First, First, Second, Second, First, First, Second, Second]"

section \<open>Properties of the settlement endpoint\<close>

subsection \<open>Rounding to a double\<close>

lemma pow2_powr: "pow2 p = 2 powr (of_int p)"
  by (simp add: pow2_def powr_int)

lemma pow2_pos: "0 < pow2 p"
  by (simp add: pow2_powr)

lemma pow2_succ: "pow2 (p + 1) = 2 * pow2 p"
  by (simp add: pow2_powr powr_add)

lemma pow2_numeral:
  "pow2 (numeral n) = 2 ^ numeral n" "pow2 (- numeral n) = 1 / 2 ^ numeral n"
  "pow2 0 = 1" "pow2 1 = 2" "pow2 (- 1) = 1 / 2"
  by (simp_all add: pow2_def)

lemma exponent_eq:
  assumes "0 < x" "pow2 e \<le> x" "x < pow2 (e + 1)"
  shows "\<lfloor>log 2 x\<rfloor> = e"
  using assms floor_log_eq_powr_iff [of x 2 e] by (simp add: pow2_powr)

lemma round_even_of_int: "round_even (of_int k) = k"
  by (simp add: round_even_def)

lemma quantum_eval:
  assumes "0 < x" "pow2 e \<le> x" "x < pow2 (e + 1)"
  shows "quantum x = pow2 (max (e - 52) (- 1074))"
  using exponent_eq [OF assms] assms(1) by (simp add: quantum_def)

text \<open>Rounding a positive real whose binary exponent is known.\<close>

lemma fl_eval:
  assumes "0 < x" "pow2 e \<le> x" "x < pow2 (e + 1)"
  shows "fl x =
           (let y = of_int (round_even (x / pow2 (max (e - 52) (- 1074)))) *
                    pow2 (max (e - 52) (- 1074))
            in if MAX_VALUE < y then Infinity else Finite y)"
proof -
  have q: "quantum x = pow2 (max (e - 52) (- 1074))"
    by (rule quantum_eval [OF assms])
  have "0 \<le> x / pow2 (max (e - 52) (- 1074))"
    using assms(1) pow2_pos [of "max (e - 52) (- 1074)"] by simp
  then have "0 \<le> round_even (x / pow2 (max (e - 52) (- 1074)))"
    by (auto simp: round_even_def)
  then have "0 \<le> of_int (round_even (x / pow2 (max (e - 52) (- 1074)))) *
                 pow2 (max (e - 52) (- 1074))"
    using pow2_pos [of "max (e - 52) (- 1074)"] by simp
  moreover have "0 < MAX_VALUE"
    by (simp add: MAX_VALUE_def)
  ultimately show ?thesis
    using assms(1) by (simp add: fl_def q Let_def)
qed

lemma representable_multiple:
  assumes "representable x" "0 < x"
  shows "\<exists>k. x = of_int k * quantum x"
proof -
  have "fl x = Finite x"
    using assms(1) by (simp add: representable_def)
  then have "of_int (round_even (x / quantum x)) * quantum x = x"
    using assms(2) by (auto simp: fl_def Let_def split: if_splits)
  then show ?thesis
    by metis
qed

lemma log2_double: "0 < x \<Longrightarrow> \<lfloor>log 2 (x * 2)\<rfloor> = \<lfloor>log 2 x\<rfloor> + 1"
  by (simp add: log_mult_pos)

text \<open>Doubling a double is exact as long as the result is not beyond the largest double.\<close>

lemma fl_doubling:
  assumes "representable x" "0 < x" "x * 2 \<le> MAX_VALUE"
  shows "fl (x * 2) = Finite (x * 2)"
proof -
  obtain k where k: "x = of_int k * quantum x"
    using representable_multiple [OF assms(1,2)] by blast
  define e where "e = \<lfloor>log 2 x\<rfloor>"
  have qx: "quantum x = pow2 (max (e - 52) (- 1074))"
    using assms(2) by (simp add: quantum_def e_def)
  have q2: "quantum (x * 2) = pow2 (max (e + 1 - 52) (- 1074))"
    using assms(2) log2_double [OF assms(2)] by (simp add: quantum_def e_def)
  have m: "\<exists>j. x * 2 = of_int j * quantum (x * 2)"
  proof (cases "- 1074 \<le> e - 52")
    case True
    then have a: "max (e - 52) (- 1074) = e - 52" "max (e + 1 - 52) (- 1074) = e - 52 + 1"
      by simp_all
    have "quantum (x * 2) = 2 * quantum x"
      unfolding qx q2 a by (rule pow2_succ)
    then have "x * 2 = of_int k * quantum (x * 2)"
      using k by simp
    then show ?thesis ..
  next
    case False
    then have a: "max (e - 52) (- 1074) = - 1074" "max (e + 1 - 52) (- 1074) = - 1074"
      by simp_all
    have "quantum (x * 2) = quantum x"
      unfolding qx q2 a by simp
    then have "x * 2 = of_int (2 * k) * quantum (x * 2)"
      using k by simp
    then show ?thesis ..
  qed
  then obtain j where j: "x * 2 = of_int j * quantum (x * 2)" ..
  have p: "0 < quantum (x * 2)"
    by (simp add: q2 pow2_pos)
  have "x * 2 / quantum (x * 2) = of_int j"
    using j p by (simp add: field_simps)
  then have "of_int (round_even (x * 2 / quantum (x * 2))) * quantum (x * 2) = x * 2"
    using j by (simp add: round_even_of_int)
  moreover have "0 < MAX_VALUE"
    by (simp add: MAX_VALUE_def)
  ultimately show ?thesis
    using assms(2,3) by (simp add: fl_def Let_def)
qed

lemma representable_double_0_3: "representable double_0_3"
proof -
  have "fl double_0_3 = Finite double_0_3"
    by (subst fl_eval [where e = "- 2"])
       (simp_all add: double_0_3_def pow2_numeral round_even_def MAX_VALUE_def Let_def)
  then show ?thesis
    by (simp add: representable_def)
qed

lemma double_0_3_doubled: "js_times (Finite double_0_3) 2 = Finite (double_0_3 * 2)"
proof -
  have "double_0_3 * 2 \<le> MAX_VALUE"
    by (simp add: double_0_3_def MAX_VALUE_def)
  moreover have "0 < double_0_3"
    by (simp add: double_0_3_def)
  ultimately show ?thesis
    using fl_doubling [OF representable_double_0_3] by simp
qed

text \<open>
  The lamports of a payout for the bet 0.3: the product of \<open>0.6\<close> (the double just below
  it) and \<open>10 ^ 9\<close> rounds up to the double \<open>600000000\<close>, although the exact product is
  below it.
\<close>

lemma double_0_3_lamports:
  "Math_floor (js_times (Finite (double_0_3 * 2)) LAMPORTS_PER_SOL) = Finite 600000000"
  "\<lfloor>double_0_3 * 2 * LAMPORTS_PER_SOL\<rfloor> = 599999999"
proof -
  have "fl (double_0_3 * 2 * 1000000000) = Finite 600000000"
    by (subst fl_eval [where e = 29])
       (simp_all add: double_0_3_def pow2_numeral round_even_def MAX_VALUE_def Let_def)
  then show "Math_floor (js_times (Finite (double_0_3 * 2)) LAMPORTS_PER_SOL) = Finite 600000000"
    by (simp add: LAMPORTS_PER_SOL_def)
  show "\<lfloor>double_0_3 * 2 * LAMPORTS_PER_SOL\<rfloor> = 599999999"
    by (simp add: double_0_3_def LAMPORTS_PER_SOL_def)
qed

text \<open>The product of the largest power of two among the doubles and 2 is beyond the
  largest double.\<close>

lemma huge_doubled: "js_times (Finite huge_wager) 2 = Infinity"
proof -
  have "fl (huge_wager * 2) = Infinity"
    by (subst fl_eval [where e = 1024])
       (simp_all add: huge_wager_def pow2_numeral round_even_def MAX_VALUE_def Let_def)
  then show ?thesis
    by simp
qed

lemma representable_huge: "representable huge_wager"
proof -
  have "fl huge_wager = Finite huge_wager"
    by (subst fl_eval [where e = 1023])
       (simp_all add: huge_wager_def pow2_numeral round_even_def MAX_VALUE_def Let_def)
  then show ?thesis
    by (simp add: representable_def)
qed

lemma huge_wager_pos: "0 < huge_wager"
  by (simp add: huge_wager_def)

subsection \<open>The connection\<close>

lemma RPC_ENDPOINTS_public: "''https://api.mainnet-beta.solana.com'' \<in> set (RPC_ENDPOINTS w)"
  by (simp add: RPC_ENDPOINTS_def List.map_filter_def)

lemma probe_events: "draws (snd (probe w es)) = 0 \<and> payout_calls (snd (probe w es)) = [] \<and>
   broadcasts (snd (probe w es)) = [] \<and> lookups (snd (probe w es)) = []"
  by (induction es) (auto split: prod.splits)

lemma probe_nonempty: "e \<in> set es \<Longrightarrow> http_url e \<Longrightarrow> snd (probe w es) \<noteq> []"
  by (induction es) (auto split: prod.splits)

text \<open>Whether it returns or throws, \<open>getConnection\<close> has made a health check by then.\<close>

lemma getConnection_events:
  "draws (snd (getConnection w)) = 0 \<and> payout_calls (snd (getConnection w)) = [] \<and>
   broadcasts (snd (getConnection w)) = [] \<and> lookups (snd (getConnection w)) = [] \<and>
   snd (getConnection w) \<noteq> []"
proof -
  have "http_url ''https://api.mainnet-beta.solana.com''"
    by (simp add: http_url_def)
  then have "snd (probe w (RPC_ENDPOINTS w)) \<noteq> []"
    using probe_nonempty [OF RPC_ENDPOINTS_public, of w w] by simp
  then show ?thesis
    using probe_events [of w "RPC_ENDPOINTS w"]
    by (auto simp: getConnection_def split: prod.splits option.splits list.splits)
qed

lemma getConnection_throws:
  "getConnection w = (Throws m, ev0) \<Longrightarrow>
     settle w sig wallet bet = (error_response 500 (or_else (Some m) ''Internal server error''), ev0)"
  by (simp add: settle_def)

subsection \<open>The steps of a round\<close>

lemma draws_append: "draws (xs @ ys) = draws xs + draws ys"
  by (induction xs rule: draws.induct) auto

lemma payout_calls_append: "payout_calls (xs @ ys) = payout_calls xs @ payout_calls ys"
  by (induction xs rule: payout_calls.induct) auto

lemma broadcasts_append: "broadcasts (xs @ ys) = broadcasts xs @ broadcasts ys"
  by (induction xs rule: broadcasts.induct) auto

lemma lookups_append: "lookups (xs @ ys) = lookups xs @ lookups ys"
  by (induction xs rule: lookups.induct) auto

lemma verifyTransaction_valid:
  "valid (fst (verifyTransaction w conn sig wallet bet)) \<longleftrightarrow> \<not> marks_failure (getSignatureStatus w conn sig)"
  by (auto simp: verifyTransaction_def marks_failure_def split: outcome.splits option.splits)

lemma verifyTransaction_events:
  "snd (verifyTransaction w conn sig wallet bet) = [EvGetSignatureStatus conn sig]"
  by (simp add: verifyTransaction_def)

lemma sendPayout_result:
  "sendPayout w conn k a x = (pay, evs) \<Longrightarrow>
     (pay_success pay \<longrightarrow> (\<exists>sg. pay_signature pay = Some sg) \<and> pay_error pay = None) \<and>
     (\<not> pay_success pay \<longrightarrow> pay_signature pay = None \<and> (\<exists>m. pay_error pay = Some m \<and> m \<noteq> []))"
  by (auto simp: sendPayout_def or_else_def Let_def split: outcome.splits)

text \<open>What a call of \<open>sendPayout\<close> leaves behind: the call itself, and the one transfer it
  broadcasts when the key of the winner, the instruction and the blockhash are there.\<close>

lemma sendPayout_events:
  "draws (snd (sendPayout w conn k a x)) = 0 \<and>
   payout_calls (snd (sendPayout w conn k a x)) = [(a, x)] \<and>
   lookups (snd (sendPayout w conn k a x)) = [] \<and>
   broadcasts (snd (sendPayout w conn k a x)) =
     (case PublicKey w a of
        Throws m \<Rightarrow> []
      | Returns pk \<Rightarrow>
          (case SystemProgram_transfer w (publicKey k) pk
                  (Math_floor (js_times x LAMPORTS_PER_SOL)) of
             Throws m \<Rightarrow> []
           | Returns u \<Rightarrow>
               (case getLatestBlockhash w conn of
                  Throws m \<Rightarrow> []
                | Returns h \<Rightarrow>
                    [\<lparr>fromPubkey = publicKey k, toPubkey = pk,
                      lamports = Math_floor (js_times x LAMPORTS_PER_SOL),
                      recentBlockhash = h, feePayer = publicKey k\<rparr>])))"
  by (simp add: sendPayout_def Let_def split: outcome.splits)

lemma settle_rejected:
  assumes "getConnection w = (Returns conn, ev0)"
      and "marks_failure (getSignatureStatus w conn sig)"
  shows "settle w sig wallet bet =
           (error_response 400 ''Transaction failed on-chain'', ev0 @ [EvGetSignatureStatus conn sig])"
  using assms
  by (auto simp: settle_def verifyTransaction_def marks_failure_def or_else_def
           split: outcome.splits option.splits)

lemma settle_verified:
  assumes "getConnection w = (Returns conn, ev0)"
      and "\<not> marks_failure (getSignatureStatus w conn sig)"
  shows "settle w sig wallet bet =
           (case payout_step w conn wallet bet (js_times (Finite bet) 2)
                   (fst (determineResult w)) of
              (Inl early, ev3) \<Rightarrow> (early, ev0 @ [EvGetSignatureStatus conn sig, EvMathRandom] @ ev3)
            | (Inr signed, ev3) \<Rightarrow>
                (\<lparr>status = 200, error = None, success = Some True,
                  result = Some (fst (determineResult w)), res_betAmount = Some bet,
                  potentialWin =
                    Some (if fst (determineResult w) = ''win'' then js_times (Finite bet) 2
                          else Finite 0),
                  payoutPending = None, payoutError = None,
                  payoutSignature = signed, message = None,
                  processingTime = Some (Date_now w - startTime w)\<rparr>,
                 ev0 @ [EvGetSignatureStatus conn sig, EvMathRandom] @ ev3))"
proof -
  obtain ver ev1 where V: "verifyTransaction w conn sig wallet bet = (ver, ev1)"
    by (cases "verifyTransaction w conn sig wallet bet")
  have v: "valid ver"
    using assms(2) verifyTransaction_valid [of w conn sig wallet bet] V by simp
  have e: "ev1 = [EvGetSignatureStatus conn sig]"
    using verifyTransaction_events [of w conn sig wallet bet] V by simp
  obtain res ev2 where D: "determineResult w = (res, ev2)"
    by (cases "determineResult w")
  have d: "ev2 = [EvMathRandom]"
    using D by (auto simp: determineResult_def)
  obtain r ev3 where P: "payout_step w conn wallet bet (js_times (Finite bet) 2) res = (r, ev3)"
    by (cases "payout_step w conn wallet bet (js_times (Finite bet) 2) res")
  show ?thesis
    by (cases r) (simp_all add: settle_def assms(1) V v e D d P del: js_times.simps)
qed

lemma determineResult_fst:
  "fst (determineResult w) = (if Math_random w < 0.5 then ''win'' else ''loss'')"
  by (simp add: determineResult_def)

lemma POST_play_validated:
  assumes "signature body = Some sig" "sig \<noteq> []" "playerWallet body = Some wallet" "wallet \<noteq> []"
          "betAmount body = Some bet" "0 < bet"
  shows "POST_play w (Returns body) = settle w sig wallet bet"
  using assms by (simp add: POST_play_def)

lemma settle_loss:
  assumes "getConnection w = (Returns conn, ev0)"
      and "\<not> marks_failure (getSignatureStatus w conn sig)"
      and "\<not> Math_random w < 0.5"
  shows "settle w sig wallet bet =
           (\<lparr>status = 200, error = None, success = Some True,
             result = Some ''loss'', res_betAmount = Some bet, potentialWin = Some (Finite 0),
             payoutPending = None, payoutError = None, payoutSignature = None, message = None,
             processingTime = Some (Date_now w - startTime w)\<rparr>,
            ev0 @ [EvGetSignatureStatus conn sig, EvMathRandom])"
  using assms(3)
  by (simp add: settle_verified [OF assms(1,2)] determineResult_fst payout_step_def
        del: js_times.simps)

lemma settle_win_pending:
  assumes "getConnection w = (Returns conn, ev0)"
      and "\<not> marks_failure (getSignatureStatus w conn sig)"
      and "Math_random w < 0.5"
      and "getBankKeypair w = None"
  shows "settle w sig wallet bet =
           (\<lparr>status = 200, error = None, success = Some True,
             result = Some ''win'', res_betAmount = Some bet,
             potentialWin = Some (js_times (Finite bet) 2),
             payoutPending = Some True, payoutError = None, payoutSignature = None,
             message = Some ''Payout will be processed manually'', processingTime = None\<rparr>,
            ev0 @ [EvGetSignatureStatus conn sig, EvMathRandom])"
  using assms(3,4)
  by (simp add: settle_verified [OF assms(1,2)] determineResult_fst payout_step_def
        del: js_times.simps)

lemma settle_win_errored:
  assumes "getConnection w = (Returns conn, ev0)"
      and "\<not> marks_failure (getSignatureStatus w conn sig)"
      and "Math_random w < 0.5"
      and "getBankKeypair w = Some k"
      and "sendPayout w conn k wallet (js_times (Finite bet) 2) = (pay, ev3)"
      and "\<not> pay_success pay"
  shows "settle w sig wallet bet =
           (\<lparr>status = 200, error = None, success = Some True,
             result = Some ''win'', res_betAmount = Some bet,
             potentialWin = Some (js_times (Finite bet) 2),
             payoutPending = None, payoutError = pay_error pay, payoutSignature = None,
             message = Some ''You won! Payout will be processed manually.'',
             processingTime = None\<rparr>,
            ev0 @ [EvGetSignatureStatus conn sig, EvMathRandom] @ ev3)"
  using assms(3-6)
  by (simp add: settle_verified [OF assms(1,2)] determineResult_fst payout_step_def
        del: js_times.simps)

lemma settle_win_paid:
  assumes "getConnection w = (Returns conn, ev0)"
      and "\<not> marks_failure (getSignatureStatus w conn sig)"
      and "Math_random w < 0.5"
      and "getBankKeypair w = Some k"
      and "sendPayout w conn k wallet (js_times (Finite bet) 2) = (pay, ev3)"
      and "pay_success pay"
  shows "settle w sig wallet bet =
           (\<lparr>status = 200, error = None, success = Some True,
             result = Some ''win'', res_betAmount = Some bet,
             potentialWin = Some (js_times (Finite bet) 2),
             payoutPending = None, payoutError = None, payoutSignature = pay_signature pay,
             message = None, processingTime = Some (Date_now w - startTime w)\<rparr>,
            ev0 @ [EvGetSignatureStatus conn sig, EvMathRandom] @ ev3)"
  using assms(3-6)
  by (simp add: settle_verified [OF assms(1,2)] determineResult_fst payout_step_def
        del: js_times.simps)

text \<open>A round that passed verification: the answer and everything it left behind.\<close>

lemma settle_settled:
  assumes c: "getConnection w = (Returns conn, ev0)"
      and v: "\<not> marks_failure (getSignatureStatus w conn sig)"
      and r: "settle w sig wallet bet = (resp, evs)"
  shows "status resp = 200 \<and> error resp = None \<and> success resp = Some True \<and>
         res_betAmount resp = Some bet \<and>
         result resp = Some (if Math_random w < 0.5 then ''win'' else ''loss'') \<and>
         potentialWin resp =
           Some (if Math_random w < 0.5 then js_times (Finite bet) 2 else Finite 0) \<and>
         draws evs = 1 \<and> lookups evs = [(conn, sig)] \<and>
         payout_calls evs =
           (if Math_random w < 0.5
            then (case getBankKeypair w of
                    None \<Rightarrow> []
                  | Some k \<Rightarrow> [(wallet, js_times (Finite bet) 2)])
            else []) \<and>
         broadcasts evs =
           (if Math_random w < 0.5
            then (case getBankKeypair w of
                    None \<Rightarrow> []
                  | Some k \<Rightarrow>
                      broadcasts (snd (sendPayout w conn k wallet (js_times (Finite bet) 2))))
            else [])"
proof -
  have g: "draws ev0 = 0" "payout_calls ev0 = []" "broadcasts ev0 = []" "lookups ev0 = []"
    using getConnection_events [of w] c by simp_all
  show ?thesis
  proof (cases "Math_random w < 0.5")
    case False
    then show ?thesis
      using settle_loss [OF c v False, of wallet bet] r g
      by (auto simp: draws_append payout_calls_append broadcasts_append lookups_append)
  next
    case True
    show ?thesis
    proof (cases "getBankKeypair w")
      case None
      then show ?thesis
        using settle_win_pending [OF c v True None, of wallet bet] r g True
        by (auto simp: draws_append payout_calls_append broadcasts_append lookups_append
              simp del: js_times.simps)
    next
      case (Some k)
      obtain pay ev3 where p: "sendPayout w conn k wallet (js_times (Finite bet) 2) = (pay, ev3)"
        by (cases "sendPayout w conn k wallet (js_times (Finite bet) 2)")
      have e: "draws ev3 = 0" "payout_calls ev3 = [(wallet, js_times (Finite bet) 2)]"
              "lookups ev3 = []"
              "broadcasts ev3 =
                 broadcasts (snd (sendPayout w conn k wallet (js_times (Finite bet) 2)))"
        using sendPayout_events [of w conn k wallet "js_times (Finite bet) 2"] p by simp_all
      show ?thesis
      proof (cases "pay_success pay")
        case False
        then show ?thesis
          using settle_win_errored [OF c v True Some p False] r g e True Some
          by (auto simp: draws_append payout_calls_append broadcasts_append lookups_append
                simp del: js_times.simps)
      next
        case paid: True
        then show ?thesis
          using settle_win_paid [OF c v True Some p paid] r g e True Some
          by (auto simp: draws_append payout_calls_append broadcasts_append lookups_append
                simp del: js_times.simps)
      qed
    qed
  qed
qed

subsection \<open>Concrete rounds\<close>

lemma demo_connection:
  "getConnection demo_world = (Returns ''https://rpc.example'', [EvGetSlot ''https://rpc.example''])"
  by (simp add: getConnection_def RPC_ENDPOINTS_def List.map_filter_def http_url_def
        demo_world_def)

lemma failed_connection:
  "getConnection failed_world = (Returns ''https://rpc.example'', [EvGetSlot ''https://rpc.example''])"
  by (simp add: getConnection_def RPC_ENDPOINTS_def List.map_filter_def http_url_def
        demo_world_def failed_world_def)

lemma keyless_connection:
  "getConnection keyless_world = (Returns ''https://rpc.example'', [EvGetSlot ''https://rpc.example''])"
  by (simp add: getConnection_def RPC_ENDPOINTS_def List.map_filter_def http_url_def
        demo_world_def keyless_world_def)

lemma offline_connection:
  "getConnection offline_world = (Returns ''https://rpc.example'', [EvGetSlot ''https://rpc.example''])"
  by (simp add: getConnection_def RPC_ENDPOINTS_def List.map_filter_def http_url_def
        demo_world_def offline_world_def)

lemma double_0_3_pos: "0 < double_0_3"
  by (simp add: double_0_3_def)

lemma demo_body_fields:
  "signature demo_body = Some ''sig''" "''sig'' \<noteq> []"
  "playerWallet demo_body = Some ''Alice''" "''Alice'' \<noteq> []"
  "betAmount demo_body = Some double_0_3" "0 < double_0_3"
  by (simp_all add: demo_body_def double_0_3_pos)

lemma demo_world_fields:
  "getSignatureStatus demo_world c sg = Returns None"
  "Math_random demo_world = 1 / 4"
  "BANK_PRIVATE_KEY demo_world = Some ''k''"
  "bs58_fromSecretKey demo_world k = Some (Keypair ''Bank'')"
  "PublicKey demo_world a = Returns a"
  "SystemProgram_transfer demo_world sender receiver (Finite 600000000) = Returns ()"
  "getLatestBlockhash demo_world c = Returns ''h''"
  "sendRawTransaction demo_world c tx = Returns ''paid''"
  "startTime demo_world = 1000" "Date_now demo_world = 1250"
  by (simp_all add: demo_world_def)

lemma demo_play:
  "POST_play demo_world (Returns demo_body) =
     (\<lparr>status = 200, error = None, success = Some True, result = Some ''win'',
       res_betAmount = Some double_0_3, potentialWin = Some (Finite (double_0_3 * 2)),
       payoutPending = None, payoutError = None, payoutSignature = Some ''paid'',
       message = None, processingTime = Some 250\<rparr>,
      [EvGetSlot ''https://rpc.example'',
       EvGetSignatureStatus ''https://rpc.example'' ''sig'',
       EvMathRandom,
       EvSendPayout ''Alice'' (Finite (double_0_3 * 2)),
       EvSendRawTransaction ''https://rpc.example''
         \<lparr>fromPubkey = ''Bank'', toPubkey = ''Alice'', lamports = Finite 600000000,
          recentBlockhash = ''h'', feePayer = ''Bank''\<rparr>])"
  using double_0_3_pos
  by (simp add: POST_play_def demo_body_def settle_def demo_connection verifyTransaction_def
        determineResult_def payout_step_def getBankKeypair_def sendPayout_def
        double_0_3_doubled double_0_3_lamports demo_world_fields Let_def
        del: js_times.simps)

lemma keyless_world_fields:
  "getSignatureStatus keyless_world c sg = Returns None"
  "Math_random keyless_world = 1 / 4"
  "BANK_PRIVATE_KEY keyless_world = None"
  by (simp_all add: demo_world_def keyless_world_def)

lemma offline_world_fields:
  "getSignatureStatus offline_world c sg = Returns None"
  "Math_random offline_world = 1 / 4"
  "BANK_PRIVATE_KEY offline_world = Some ''k''"
  "bs58_fromSecretKey offline_world k = Some (Keypair ''Bank'')"
  "PublicKey offline_world a = Returns a"
  "SystemProgram_transfer offline_world sender receiver (Finite 600000000) = Returns ()"
  "getLatestBlockhash offline_world c = Returns ''h''"
  "sendRawTransaction offline_world c tx = Throws ''Blockhash not found''"
  by (simp_all add: demo_world_def offline_world_def)

lemma offline_play:
  "POST_play offline_world (Returns demo_body) =
     (\<lparr>status = 200, error = None, success = Some True, result = Some ''win'',
       res_betAmount = Some double_0_3, potentialWin = Some (Finite (double_0_3 * 2)),
       payoutPending = None, payoutError = Some ''Blockhash not found'',
       payoutSignature = None,
       message = Some ''You won! Payout will be processed manually.'',
       processingTime = None\<rparr>,
      [EvGetSlot ''https://rpc.example'',
       EvGetSignatureStatus ''https://rpc.example'' ''sig'',
       EvMathRandom,
       EvSendPayout ''Alice'' (Finite (double_0_3 * 2)),
       EvSendRawTransaction ''https://rpc.example''
         \<lparr>fromPubkey = ''Bank'', toPubkey = ''Alice'', lamports = Finite 600000000,
          recentBlockhash = ''h'', feePayer = ''Bank''\<rparr>])"
  using double_0_3_pos
  by (simp add: POST_play_def demo_body_def settle_def offline_connection verifyTransaction_def
        determineResult_def payout_step_def getBankKeypair_def sendPayout_def or_else_def
        double_0_3_doubled double_0_3_lamports offline_world_fields Let_def
        del: js_times.simps)

subsection \<open>The claims\<close>

text \<open>
  Claim C4. A settlement request that lacks the transfer reference or the bettor address
  (absent or empty), or whose wager amount is absent or not above zero, is answered with
  the client error 400, and the handler has made no outbound call by then: no RPC
  endpoint was probed, no status looked up, no number drawn, no payout started.
\<close>

theorem invalid_request_rejected_before_any_effect:
  assumes "signature body = None \<or> signature body = Some [] \<or>
           playerWallet body = None \<or> playerWallet body = Some [] \<or>
           betAmount body = None \<or> (\<exists>x. betAmount body = Some x \<and> x \<le> 0)"
  shows "status (fst (POST_play w (Returns body))) = 400 \<and>
         (\<exists>msg. fst (POST_play w (Returns body)) = error_response 400 msg) \<and>
         snd (POST_play w (Returns body)) = []"
  using assms
  by (auto simp: POST_play_def error_response_def split: option.splits)

theorem invalid_request_rejected_witness:
  "betAmount (demo_body\<lparr>betAmount := Some (- 1)\<rparr>) = Some (- 1) \<and> (- 1 :: real) \<le> 0 \<and>
   POST_play demo_world (Returns (demo_body\<lparr>betAmount := Some (- 1)\<rparr>)) =
     (error_response 400 ''Invalid bet amount'', [])"
proof -
  have h: "\<exists>x. betAmount (demo_body\<lparr>betAmount := Some (- 1)\<rparr>) = Some x \<and> x \<le> 0"
    by simp
  have "snd (POST_play demo_world (Returns (demo_body\<lparr>betAmount := Some (- 1)\<rparr>))) = []"
    using invalid_request_rejected_before_any_effect
            [of "demo_body\<lparr>betAmount := Some (- 1)\<rparr>" demo_world] h
    by blast
  moreover have "fst (POST_play demo_world (Returns (demo_body\<lparr>betAmount := Some (- 1)\<rparr>))) =
      error_response 400 ''Invalid bet amount''"
    by (simp add: POST_play_def demo_body_def)
  ultimately show ?thesis
    by (simp add: prod_eq_iff)
qed

text \<open>
  Claim C2. For a request that passed the input checks, the answer is the client error
  400 exactly when the status lookup on the selected connection returns a status whose
  \<^verbatim>\<open>err\<close> is set; the rejection comes before any draw and before any payout call. When
  the lookup finds no status, or throws, the verification is valid with the caller's
  amount and the round is settled with that amount.
\<close>

theorem rejected_exactly_when_status_marks_failure:
  assumes "signature body = Some sig" "sig \<noteq> []" "playerWallet body = Some wallet"
          "wallet \<noteq> []" "betAmount body = Some bet" "0 < bet"
      and "fst (getConnection w) = Returns conn"
  shows "(case POST_play w (Returns body) of (resp, evs) \<Rightarrow>
           (status resp = 400 \<longleftrightarrow> marks_failure (getSignatureStatus w conn sig)) \<and>
           (marks_failure (getSignatureStatus w conn sig) \<longrightarrow>
              resp = error_response 400 ''Transaction failed on-chain'' \<and>
              draws evs = 0 \<and> payout_calls evs = [] \<and> broadcasts evs = []) \<and>
           (getSignatureStatus w conn sig = Returns None \<or>
            (\<exists>m. getSignatureStatus w conn sig = Throws m) \<longrightarrow>
              fst (verifyTransaction w conn sig wallet bet) = Verification True None (Some bet) \<and>
              status resp = 200 \<and> success resp = Some True \<and> res_betAmount resp = Some bet \<and>
              (result resp = Some ''win'' \<or> result resp = Some ''loss'') \<and> draws evs = 1))"
proof -
  obtain ev0 where c: "getConnection w = (Returns conn, ev0)"
    using assms(7) by (cases "getConnection w") simp
  have g: "draws ev0 = 0" "payout_calls ev0 = []" "broadcasts ev0 = []"
    using getConnection_events [of w] c by simp_all
  obtain resp evs where r: "settle w sig wallet bet = (resp, evs)"
    by (cases "settle w sig wallet bet")
  have p: "POST_play w (Returns body) = (resp, evs)"
    using POST_play_validated [OF assms(1-6), of w] r by simp
  show ?thesis
  proof (cases "marks_failure (getSignatureStatus w conn sig)")
    case True
    have "\<not> (getSignatureStatus w conn sig = Returns None \<or>
              (\<exists>m. getSignatureStatus w conn sig = Throws m))"
      using True by (auto simp: marks_failure_def)
    then show ?thesis
      using settle_rejected [OF c True, of wallet bet] r p g True
      by (auto simp: error_response_def draws_append payout_calls_append broadcasts_append)
  next
    case False
    have "fst (verifyTransaction w conn sig wallet bet) = Verification True None (Some bet)"
      using False
      by (auto simp: verifyTransaction_def marks_failure_def split: outcome.splits option.splits)
    then show ?thesis
      using settle_settled [OF c False r] p False by auto
  qed
qed

theorem rejected_when_status_marks_failure_witness:
  "marks_failure (getSignatureStatus failed_world ''https://rpc.example'' ''sig'') \<and>
   fst (POST_play failed_world (Returns demo_body)) =
     error_response 400 ''Transaction failed on-chain'' \<and>
   draws (snd (POST_play failed_world (Returns demo_body))) = 0 \<and>
   payout_calls (snd (POST_play failed_world (Returns demo_body))) = []"
proof -
  have m: "marks_failure (getSignatureStatus failed_world ''https://rpc.example'' ''sig'')"
    by (simp add: marks_failure_def failed_world_def)
  have c: "fst (getConnection failed_world) = Returns ''https://rpc.example''"
    by (simp add: failed_connection)
  show ?thesis
    using rejected_exactly_when_status_marks_failure [OF demo_body_fields c] m
    by (simp add: case_prod_beta)
qed

text \<open>
  Claim C1, as the code has it. For a request with a transfer reference, a bettor
  address and a positive amount (a double whose double is not beyond the largest
  double), whose verification is valid, the response reports exactly one of win and
  loss. On a loss the payout field is 0 and there is no payout call and no transfer. On
  a win the payout field is exactly twice the wager; with a signing key \<^verbatim>\<open>sendPayout\<close>
  is called exactly once, for the bettor, with exactly twice the wager, and without a
  key not at all. The one transfer that call broadcasts, when the winner's key, the
  instruction and the blockhash are there, carries
  \<^verbatim>\<open>Math.floor(amount * LAMPORTS_PER_SOL)\<close> lamports, a product of doubles.
\<close>

theorem payout_is_zero_or_exactly_double:
  assumes "signature body = Some sig" "sig \<noteq> []" "playerWallet body = Some wallet"
          "wallet \<noteq> []" "betAmount body = Some bet" "0 < bet"
      and "representable bet" "bet * 2 \<le> MAX_VALUE"
      and "fst (getConnection w) = Returns conn"
      and "\<not> marks_failure (getSignatureStatus w conn sig)"
  shows "(case POST_play w (Returns body) of (resp, evs) \<Rightarrow>
           status resp = 200 \<and> success resp = Some True \<and> res_betAmount resp = Some bet \<and>
           (result resp = Some ''win'' \<or> result resp = Some ''loss'') \<and>
           result resp = Some (if Math_random w < 0.5 then ''win'' else ''loss'') \<and>
           (result resp = Some ''loss'' \<longrightarrow>
              potentialWin resp = Some (Finite 0) \<and> payout_calls evs = [] \<and>
              broadcasts evs = []) \<and>
           (result resp = Some ''win'' \<longrightarrow>
              potentialWin resp = Some (Finite (2 * bet)) \<and>
              payout_calls evs =
                (case getBankKeypair w of
                   None \<Rightarrow> []
                 | Some k \<Rightarrow> [(wallet, Finite (2 * bet))]) \<and>
              broadcasts evs =
                (case getBankKeypair w of
                   None \<Rightarrow> []
                 | Some k \<Rightarrow>
                     (case PublicKey w wallet of
                        Throws m \<Rightarrow> []
                      | Returns pk \<Rightarrow>
                          (case SystemProgram_transfer w (publicKey k) pk
                                  (Math_floor (js_times (Finite (2 * bet)) LAMPORTS_PER_SOL)) of
                             Throws m \<Rightarrow> []
                           | Returns u \<Rightarrow>
                               (case getLatestBlockhash w conn of
                                  Throws m \<Rightarrow> []
                                | Returns h \<Rightarrow>
                                    [\<lparr>fromPubkey = publicKey k, toPubkey = pk,
                                      lamports =
                                        Math_floor
                                          (js_times (Finite (2 * bet)) LAMPORTS_PER_SOL),
                                      recentBlockhash = h, feePayer = publicKey k\<rparr>]))))))"
proof -
  obtain ev0 where c: "getConnection w = (Returns conn, ev0)"
    using assms(9) by (cases "getConnection w") simp
  obtain resp evs where r: "settle w sig wallet bet = (resp, evs)"
    by (cases "settle w sig wallet bet")
  have p: "POST_play w (Returns body) = (resp, evs)"
    using POST_play_validated [OF assms(1-6), of w] r by simp
  have "fl (bet * 2) = Finite (bet * 2)"
    by (rule fl_doubling [OF assms(7) assms(6) assms(8)])
  then have two: "js_times (Finite bet) 2 = Finite (2 * bet)"
    by (simp add: mult.commute)
  note s = settle_settled [OF c assms(10) r, unfolded two]
  show ?thesis
  proof (cases "Math_random w < 0.5")
    case False
    then show ?thesis
      using s by (simp add: p del: js_times.simps)
  next
    case True
    then show ?thesis
      using s sendPayout_events [of w conn _ wallet "Finite (2 * bet)"]
      by (cases "getBankKeypair w") (simp_all add: p del: js_times.simps)
  qed
qed

text \<open>Against the claim as first stated: the wager \<open>2 ^ 1023\<close> is a positive double, the
  round is a win, and the payout field is \<^verbatim>\<open>Infinity\<close> (written \<^verbatim>\<open>null\<close> in the
  answer), as is the amount of the payout call; twice the wager is \<open>2 ^ 1024\<close>.\<close>

theorem payout_of_huge_wager_counterexample:
  "betAmount huge_body = Some huge_wager \<and> huge_wager = 2 ^ 1023 \<and> 0 < huge_wager \<and>
   representable huge_wager \<and>
   POST_play keyless_world (Returns huge_body) =
     (\<lparr>status = 200, error = None, success = Some True, result = Some ''win'',
       res_betAmount = Some huge_wager, potentialWin = Some Infinity,
       payoutPending = Some True, payoutError = None, payoutSignature = None,
       message = Some ''Payout will be processed manually'', processingTime = None\<rparr>,
      [EvGetSlot ''https://rpc.example'',
       EvGetSignatureStatus ''https://rpc.example'' ''sig'',
       EvMathRandom]) \<and>
   JSON_number Infinity = None \<and>
   payout_calls (snd (POST_play demo_world (Returns huge_body))) = [(''Alice'', Infinity)] \<and>
   Infinity \<noteq> Finite (2 * huge_wager)"
proof -
  have k: "POST_play keyless_world (Returns huge_body) =
     (\<lparr>status = 200, error = None, success = Some True, result = Some ''win'',
       res_betAmount = Some huge_wager, potentialWin = Some Infinity,
       payoutPending = Some True, payoutError = None, payoutSignature = None,
       message = Some ''Payout will be processed manually'', processingTime = None\<rparr>,
      [EvGetSlot ''https://rpc.example'',
       EvGetSignatureStatus ''https://rpc.example'' ''sig'',
       EvMathRandom])"
    using huge_wager_pos
    by (simp add: POST_play_def huge_body_def settle_def keyless_connection
          verifyTransaction_def determineResult_def payout_step_def getBankKeypair_def
          huge_doubled keyless_world_fields Let_def del: js_times.simps)
  have m: "\<not> marks_failure (getSignatureStatus demo_world ''https://rpc.example'' ''sig'')"
    by (simp add: marks_failure_def demo_world_fields)
  have v: "POST_play demo_world (Returns huge_body) =
      settle demo_world ''sig'' ''Alice'' huge_wager"
    using huge_wager_pos by (simp add: POST_play_def huge_body_def)
  have d: "payout_calls (snd (POST_play demo_world (Returns huge_body))) = [(''Alice'', Infinity)]"
    using settle_settled [OF demo_connection m, of "''Alice''" huge_wager]
    by (cases "settle demo_world ''sig'' ''Alice'' huge_wager")
       (simp add: v huge_doubled getBankKeypair_def demo_world_fields del: js_times.simps)
  have h: "huge_wager = 2 ^ 1023"
    by (simp add: huge_wager_def)
  show ?thesis
    using k d representable_huge huge_wager_pos h by (simp add: huge_body_def)
qed

theorem payout_is_double_witness:
  "representable double_0_3 \<and> double_0_3 * 2 \<le> MAX_VALUE \<and>
   \<not> marks_failure (getSignatureStatus demo_world ''https://rpc.example'' ''sig'') \<and>
   result (fst (POST_play demo_world (Returns demo_body))) = Some ''win'' \<and>
   potentialWin (fst (POST_play demo_world (Returns demo_body))) = Some (Finite (2 * double_0_3)) \<and>
   payout_calls (snd (POST_play demo_world (Returns demo_body))) =
     [(''Alice'', Finite (2 * double_0_3))] \<and>
   broadcasts (snd (POST_play demo_world (Returns demo_body))) =
     [\<lparr>fromPubkey = ''Bank'', toPubkey = ''Alice'', lamports = Finite 600000000,
       recentBlockhash = ''h'', feePayer = ''Bank''\<rparr>]"
proof -
  have m: "\<not> marks_failure (getSignatureStatus demo_world ''https://rpc.example'' ''sig'')"
    by (simp add: marks_failure_def demo_world_fields)
  have c: "fst (getConnection demo_world) = Returns ''https://rpc.example''"
    by (simp add: demo_connection)
  have b: "double_0_3 * 2 \<le> MAX_VALUE"
    by (simp add: double_0_3_def MAX_VALUE_def)
  have k: "getBankKeypair demo_world = Some (Keypair ''Bank'')"
    by (simp add: getBankKeypair_def demo_world_fields)
  have l: "Math_floor (js_times (Finite (2 * double_0_3)) LAMPORTS_PER_SOL) = Finite 600000000"
    using double_0_3_lamports(1) by (simp add: mult.commute)
  show ?thesis
    using payout_is_zero_or_exactly_double
            [OF demo_body_fields representable_double_0_3 b c m]
          m b representable_double_0_3 k
    by (simp add: case_prod_beta l demo_world_fields del: js_times.simps)
qed

text \<open>
  Claim C3. On a win whose payout does not go through, the answer is still a success:
  status 200, no \<^verbatim>\<open>error\<close> key, \<^verbatim>\<open>success\<close> true and \<^verbatim>\<open>result\<close> win. The three
  keys \<^verbatim>\<open>payoutPending\<close>, \<^verbatim>\<open>payoutError\<close> and \<^verbatim>\<open>payoutSignature\<close> tell the cases apart:
  without a signing key only \<^verbatim>\<open>payoutPending\<close> is present; when \<^verbatim>\<open>sendPayout\<close> fails
  only \<^verbatim>\<open>payoutError\<close> is present, with a non-empty text; when it succeeds only
  \<^verbatim>\<open>payoutSignature\<close> is present. The payout field carries the handler's product
  \<^verbatim>\<open>betAmount * 2\<close>.
\<close>

theorem win_without_payout_is_success_shaped:
  assumes "signature body = Some sig" "sig \<noteq> []" "playerWallet body = Some wallet"
          "wallet \<noteq> []" "betAmount body = Some bet" "0 < bet"
      and "fst (getConnection w) = Returns conn"
      and "\<not> marks_failure (getSignatureStatus w conn sig)"
      and "Math_random w < 0.5"
  shows "(case POST_play w (Returns body) of (resp, evs) \<Rightarrow>
           status resp = 200 \<and> error resp = None \<and> success resp = Some True \<and>
           result resp = Some ''win'' \<and> potentialWin resp = Some (js_times (Finite bet) 2) \<and>
           (getBankKeypair w = None \<longrightarrow>
              payoutPending resp = Some True \<and> payoutError resp = None \<and>
              payoutSignature resp = None) \<and>
           (\<forall>k. getBankKeypair w = Some k \<longrightarrow>
              (\<not> pay_success (fst (sendPayout w conn k wallet (js_times (Finite bet) 2))) \<longrightarrow>
                 payoutPending resp = None \<and> (\<exists>m. payoutError resp = Some m \<and> m \<noteq> []) \<and>
                 payoutSignature resp = None) \<and>
              (pay_success (fst (sendPayout w conn k wallet (js_times (Finite bet) 2))) \<longrightarrow>
                 payoutPending resp = None \<and> payoutError resp = None \<and>
                 (\<exists>sg. payoutSignature resp = Some sg))))"
proof -
  obtain ev0 where c: "getConnection w = (Returns conn, ev0)"
    using assms(7) by (cases "getConnection w") simp
  have p: "POST_play w (Returns body) = settle w sig wallet bet"
    using POST_play_validated [OF assms(1-6), of w] by simp
  show ?thesis
  proof (cases "getBankKeypair w")
    case None
    then show ?thesis
      using settle_win_pending [OF c assms(8,9) None, of wallet bet] p
      by (simp del: js_times.simps)
  next
    case (Some k)
    obtain pay ev3 where s: "sendPayout w conn k wallet (js_times (Finite bet) 2) = (pay, ev3)"
      by (cases "sendPayout w conn k wallet (js_times (Finite bet) 2)")
    show ?thesis
    proof (cases "pay_success pay")
      case False
      then show ?thesis
        using settle_win_errored [OF c assms(8,9) Some s False] sendPayout_result [OF s] p Some s
        by (simp del: js_times.simps)
    next
      case True
      then show ?thesis
        using settle_win_paid [OF c assms(8,9) Some s True] sendPayout_result [OF s] p Some s
        by (simp del: js_times.simps)
    qed
  qed
qed

theorem win_without_payout_witness:
  "getBankKeypair keyless_world = None \<and>
   status (fst (POST_play keyless_world (Returns demo_body))) = 200 \<and>
   result (fst (POST_play keyless_world (Returns demo_body))) = Some ''win'' \<and>
   payoutPending (fst (POST_play keyless_world (Returns demo_body))) = Some True \<and>
   payoutError (fst (POST_play keyless_world (Returns demo_body))) = None \<and>
   getBankKeypair offline_world = Some (Keypair ''Bank'') \<and>
   status (fst (POST_play offline_world (Returns demo_body))) = 200 \<and>
   result (fst (POST_play offline_world (Returns demo_body))) = Some ''win'' \<and>
   payoutPending (fst (POST_play offline_world (Returns demo_body))) = None \<and>
   payoutError (fst (POST_play offline_world (Returns demo_body))) = Some ''Blockhash not found'' \<and>
   payoutSignature (fst (POST_play offline_world (Returns demo_body))) = None"
proof -
  have k: "getBankKeypair keyless_world = None"
    by (simp add: getBankKeypair_def keyless_world_def demo_world_def)
  have km: "\<not> marks_failure (getSignatureStatus keyless_world ''https://rpc.example'' ''sig'')"
    by (simp add: marks_failure_def keyless_world_def demo_world_def)
  have kr: "Math_random keyless_world < 0.5"
    by (simp add: keyless_world_def demo_world_def)
  have kc: "fst (getConnection keyless_world) = Returns ''https://rpc.example''"
    by (simp add: keyless_connection)
  have first: "status (fst (POST_play keyless_world (Returns demo_body))) = 200 \<and>
      result (fst (POST_play keyless_world (Returns demo_body))) = Some ''win'' \<and>
      payoutPending (fst (POST_play keyless_world (Returns demo_body))) = Some True \<and>
      payoutError (fst (POST_play keyless_world (Returns demo_body))) = None"
    using win_without_payout_is_success_shaped [OF demo_body_fields kc km kr] k
    by (simp add: case_prod_beta del: js_times.simps)
  have o: "getBankKeypair offline_world = Some (Keypair ''Bank'')"
    by (simp add: getBankKeypair_def offline_world_def demo_world_def)
  have om: "\<not> marks_failure (getSignatureStatus offline_world ''https://rpc.example'' ''sig'')"
    by (simp add: marks_failure_def offline_world_def demo_world_def)
  have or: "Math_random offline_world < 0.5"
    by (simp add: offline_world_def demo_world_def)
  have oc: "fst (getConnection offline_world) = Returns ''https://rpc.example''"
    by (simp add: offline_connection)
  have os: "fst (sendPayout offline_world ''https://rpc.example'' (Keypair ''Bank'') ''Alice''
                   (js_times (Finite double_0_3) 2)) =
      Payout False None (Some ''Blockhash not found'')"
    by (simp add: sendPayout_def double_0_3_doubled double_0_3_lamports offline_world_fields
          or_else_def Let_def del: js_times.simps)
  have pe: "payoutError (fst (POST_play offline_world (Returns demo_body))) = Some ''Blockhash not found''"
    by (simp add: offline_play)
  have second: "status (fst (POST_play offline_world (Returns demo_body))) = 200 \<and>
      result (fst (POST_play offline_world (Returns demo_body))) = Some ''win'' \<and>
      payoutPending (fst (POST_play offline_world (Returns demo_body))) = None \<and>
      payoutSignature (fst (POST_play offline_world (Returns demo_body))) = None"
    using win_without_payout_is_success_shaped [OF demo_body_fields oc om or] o os
    by (simp add: case_prod_beta del: js_times.simps)
  show ?thesis
    using k first o second pe by simp
qed

text \<open>
  Claim C5. Every invocation draws at most once: exactly once when the wager is settled
  (status 200) and not at all when the request is rejected. The outcome of a settled
  wager is win precisely when the number drawn is below 0.5, and loss otherwise. The
  number drawn is a parameter of the model; its distribution is the random source's.
\<close>

theorem one_draw_decides_each_settled_wager:
  "(case POST_play w request of (resp, evs) \<Rightarrow>
      draws evs = (if status resp = 200 then 1 else 0) \<and>
      result resp =
        (if status resp = 200 then Some (if Math_random w < 0.5 then ''win'' else ''loss'')
         else None))"
proof (cases request)
  case (Throws m)
  then show ?thesis
    by (simp add: POST_play_def error_response_def)
next
  case (Returns body)
  have s: "draws (snd (settle w sig wallet bet)) =
             (if status (fst (settle w sig wallet bet)) = 200 then 1 else 0) \<and>
           result (fst (settle w sig wallet bet)) =
             (if status (fst (settle w sig wallet bet)) = 200
              then Some (if Math_random w < 0.5 then ''win'' else ''loss'') else None)"
    for sig wallet bet
  proof (cases "getConnection w")
    case (Pair answer ev0)
    have g: "draws ev0 = 0"
      using getConnection_events [of w] Pair by simp
    show ?thesis
    proof (cases answer)
      case (Throws m)
      then show ?thesis
        using getConnection_throws [of w m ev0 sig wallet bet] Pair g
        by (simp add: error_response_def)
    next
      case (Returns conn)
      have c: "getConnection w = (Returns conn, ev0)"
        using Pair Returns by simp
      show ?thesis
      proof (cases "marks_failure (getSignatureStatus w conn sig)")
        case True
        then show ?thesis
          using settle_rejected [OF c True, of wallet bet] g
          by (simp add: error_response_def draws_append)
      next
        case False
        obtain resp evs where r: "settle w sig wallet bet = (resp, evs)"
          by (cases "settle w sig wallet bet")
        show ?thesis
          using settle_settled [OF c False r] r by simp
      qed
    qed
  qed
  show ?thesis
    using Returns s
    by (auto simp: POST_play_def error_response_def case_prod_beta split: option.splits)
qed

theorem one_draw_witness:
  "status (fst (POST_play demo_world (Returns demo_body))) = 200 \<and>
   draws (snd (POST_play demo_world (Returns demo_body))) = 1 \<and>
   Math_random demo_world < 0.5 \<and>
   result (fst (POST_play demo_world (Returns demo_body))) = Some ''win'' \<and>
   status (fst (POST_play failed_world (Returns demo_body))) = 400 \<and>
   draws (snd (POST_play failed_world (Returns demo_body))) = 0 \<and>
   result (fst (POST_play failed_world (Returns demo_body))) = None"
proof -
  have a: "status (fst (POST_play demo_world (Returns demo_body))) = 200"
    by (simp add: demo_play)
  have m: "marks_failure (getSignatureStatus failed_world ''https://rpc.example'' ''sig'')"
    by (simp add: marks_failure_def failed_world_def)
  have b: "status (fst (POST_play failed_world (Returns demo_body))) = 400"
    using POST_play_validated [OF demo_body_fields, of failed_world]
    by (simp add: settle_rejected [OF failed_connection m] error_response_def)
  show ?thesis
    using one_draw_decides_each_settled_wager [of demo_world "Returns demo_body"]
          one_draw_decides_each_settled_wager [of failed_world "Returns demo_body"] a b
    by (simp add: case_prod_beta demo_world_fields)
qed

section \<open>Properties of the statistics accessor\<close>

lemma read_begin_NoFault:
  "read_begin s NoFault = Inr (global_stats s)"
  by (simp add: read_begin_def select_global_stats_def split: option.splits)

lemma read_begin_Rejects: "read_begin s (Rejects m) = Inl defaultStats"
  by (simp add: read_begin_def select_global_stats_def)

lemma read_begin_Fails:
  "read_begin s (Fails e) = (if code e \<noteq> ''PGRST116'' then Inl defaultStats else Inr None)"
  by (simp add: read_begin_def select_global_stats_def)

lemma read_finish_Rejects: "read_finish s (Rejects m) d = defaultStats"
  by (simp add: read_finish_def select_game_history_def)

lemma counters_read_finish:
  "\<forall>m. f \<noteq> Rejects m \<Longrightarrow>
     counters (read_finish s f (global_stats s)) = aggregate s"
  by (cases f)
     (auto simp: read_finish_def select_game_history_def counters_def aggregate_def
        defaultStats_def Let_def split: option.splits)

lemma history_read_finish_NoFault:
  "gameHistory (read_finish s NoFault d) =
     map item_of_row (take 100 (rev (sort_key row_timestamp (game_history s))))"
  by (simp add: read_finish_def select_game_history_def defaultStats_def Let_def
        split: option.splits)

lemma history_read_finish_Fails: "gameHistory (read_finish s (Fails e) d) = []"
  by (simp add: read_finish_def select_game_history_def defaultStats_def Let_def
        split: option.splits)

lemma newest_first_rows:
  "newest_first (map item_of_row (rev (sort_key row_timestamp rows)))"
proof -
  have "sorted (map row_timestamp (sort_key row_timestamp rows))"
    by (rule sorted_sort_key)
  then have "sorted_wrt (\<lambda>a b. row_timestamp a \<le> row_timestamp b) (sort_key row_timestamp rows)"
    by (simp add: sorted_map)
  then have "sorted_wrt (\<lambda>a b. row_timestamp b \<le> row_timestamp a)
               (rev (sort_key row_timestamp rows))"
    by (simp add: sorted_wrt_rev)
  then show ?thesis
    by (simp add: newest_first_def sorted_wrt_map item_of_row_def)
qed

lemma newest_first_take: "newest_first h \<Longrightarrow> newest_first (take n h)"
  unfolding newest_first_def by (rule sorted_wrt_take)

lemma readStats_NoFault: "readStats s NoFault f = read_finish s f (global_stats s)"
  by (simp add: readStats_def read_begin_NoFault)

lemma read_begin_Inl: "read_begin s f = Inl early \<Longrightarrow> early = defaultStats"
  by (cases f) (auto simp: read_begin_def select_global_stats_def split: option.splits if_splits)

lemma readStats_masked:
  "(\<exists>m. f1 = Rejects m) \<or> (\<exists>e. f1 = Fails e \<and> code e \<noteq> ''PGRST116'') \<or> (\<exists>m. f2 = Rejects m)
     \<Longrightarrow> readStats s f1 f2 = defaultStats"
  by (auto simp: readStats_def read_begin_Rejects read_begin_Fails read_finish_Rejects
        split: sum.splits dest: read_begin_Inl)

lemma readStats_empty:
  "global_stats s = None \<Longrightarrow> game_history s = [] \<Longrightarrow> readStats s NoFault NoFault = defaultStats"
  by (simp add: readStats_NoFault read_finish_def select_game_history_def defaultStats_def)

lemma take_20_defaultStats: "defaultStats\<lparr>gameHistory := take 20 (gameHistory defaultStats)\<rparr> = defaultStats"
  by (simp add: defaultStats_def)

lemma counters_gameHistory_update: "counters (stats\<lparr>gameHistory := h\<rparr>) = counters stats"
  by (simp add: counters_def)

text \<open>
  Claim C8, as the code has it. The statistics read always answers with status 200.
  When the query for the aggregate row is answered with an error other than "no rows",
  or when either query rejects, the answer is the zero-valued default with an empty
  history. When only the history query is answered with an error, the answer carries
  the stored counters and an empty history (not the zero-valued default). An aggregate
  query answered with "no rows" gives zero counters. When both
  queries are served, the answer carries the stored counters and the first 20 rows of
  the history in descending order of timestamp; against an empty store that is the
  zero-valued default.
\<close>

theorem stats_read_masks_store_failures:
  "fst (GET_stats s f1 f2) = 200 \<and>
   ((\<exists>m. f1 = Rejects m) \<or> (\<exists>e. f1 = Fails e \<and> code e \<noteq> ''PGRST116'') \<or> (\<exists>m. f2 = Rejects m)
      \<longrightarrow> snd (GET_stats s f1 f2) = defaultStats) \<and>
   (f1 = NoFault \<and> (\<exists>e. f2 = Fails e) \<longrightarrow>
      counters (snd (GET_stats s f1 f2)) = aggregate s \<and>
      gameHistory (snd (GET_stats s f1 f2)) = []) \<and>
   ((\<exists>e. f1 = Fails e \<and> code e = ''PGRST116'') \<and> (\<forall>m. f2 \<noteq> Rejects m) \<longrightarrow>
      counters (snd (GET_stats s f1 f2)) = (0, 0, 0, 0)) \<and>
   (f1 = NoFault \<and> f2 = NoFault \<longrightarrow>
      counters (snd (GET_stats s f1 f2)) = aggregate s \<and>
      gameHistory (snd (GET_stats s f1 f2)) =
        take 20 (map item_of_row (rev (sort_key row_timestamp (game_history s)))) \<and>
      length (gameHistory (snd (GET_stats s f1 f2))) \<le> 20 \<and>
      newest_first (gameHistory (snd (GET_stats s f1 f2)))) \<and>
   (f1 = NoFault \<and> f2 = NoFault \<and> global_stats s = None \<and> game_history s = [] \<longrightarrow>
      snd (GET_stats s f1 f2) = defaultStats)"
proof -
  have status: "fst (GET_stats s f1 f2) = 200"
    by (simp add: GET_stats_def Let_def)
  have masked: "snd (GET_stats s f1 f2) = defaultStats"
    if "(\<exists>m. f1 = Rejects m) \<or> (\<exists>e. f1 = Fails e \<and> code e \<noteq> ''PGRST116'') \<or> (\<exists>m. f2 = Rejects m)"
    using readStats_masked [OF that, of s]
    by (simp add: GET_stats_def Let_def take_20_defaultStats)
  have partial: "counters (snd (GET_stats s NoFault (Fails e))) = aggregate s \<and>
      gameHistory (snd (GET_stats s NoFault (Fails e))) = []" for e
    using counters_read_finish [of "Fails e" s]
    by (simp add: GET_stats_def Let_def readStats_NoFault counters_gameHistory_update
          history_read_finish_Fails)
  have h: "gameHistory (snd (GET_stats s NoFault NoFault)) =
      take 20 (map item_of_row (rev (sort_key row_timestamp (game_history s))))"
    by (simp add: GET_stats_def Let_def readStats_NoFault history_read_finish_NoFault
          take_map min_def)
  have n: "newest_first (take 20 (map item_of_row (rev (sort_key row_timestamp (game_history s)))))"
    by (rule newest_first_take) (rule newest_first_rows)
  have c: "counters (snd (GET_stats s NoFault NoFault)) = aggregate s"
    using counters_read_finish [of NoFault s]
    by (simp add: GET_stats_def Let_def readStats_NoFault counters_gameHistory_update)
  have norows: "counters (snd (GET_stats s (Fails e) f2)) = (0, 0, 0, 0)"
    if "code e = ''PGRST116''" "\<forall>m. f2 \<noteq> Rejects m" for e
    using that
    by (cases f2)
       (simp_all add: GET_stats_def Let_def readStats_def read_begin_Fails read_finish_def
          select_game_history_def counters_def defaultStats_def)
  have empty: "snd (GET_stats s NoFault NoFault) = defaultStats"
    if "global_stats s = None" "game_history s = []"
    using that readStats_empty [of s]
    by (simp add: GET_stats_def Let_def take_20_defaultStats)
  show ?thesis
    by (intro conjI impI; (elim conjE exE)?; simp add: status masked partial norows h n c empty)
qed

text \<open>Against the claim as first stated: the history query is answered with an error, and the
  read returns the stored counters 5, 1, 3, 2 rather than the zero-valued default.\<close>

theorem stats_read_history_error_counterexample:
  "GET_stats busy_store NoFault (Fails timeout_error) =
     (200, \<lparr>totalBets = 5, totalWagered = 1, wins = 3, losses = 2, gameHistory = []\<rparr>) \<and>
   snd (GET_stats busy_store NoFault (Fails timeout_error)) \<noteq> defaultStats"
  by (simp add: GET_stats_def readStats_NoFault read_finish_def select_game_history_def
        busy_store_def or0_def defaultStats_def Let_def)

theorem stats_read_witness:
  "snd (GET_stats empty_store NoFault NoFault) = defaultStats \<and>
   snd (GET_stats busy_store (Fails timeout_error) NoFault) = defaultStats \<and>
   counters (snd (GET_stats busy_store NoFault NoFault)) = (5, 1, 3, 2) \<and>
   gameHistory (snd (GET_stats busy_store NoFault NoFault)) =
     [\<lparr>item_result = ''win'', item_amount = 1 / 5, item_timestamp = 3, item_playerWallet = None\<rparr>]"
proof -
  have e: "global_stats empty_store = None" "game_history empty_store = []"
    by (simp_all add: empty_store_def)
  have t: "code timeout_error \<noteq> ''PGRST116''"
    by (simp add: timeout_error_def)
  have a: "aggregate busy_store = (5, 1, 3, 2)"
    by (simp add: aggregate_def busy_store_def or0_def)
  have h: "take 20 (map item_of_row (rev (sort_key row_timestamp (game_history busy_store)))) =
      [\<lparr>item_result = ''win'', item_amount = 1 / 5, item_timestamp = 3, item_playerWallet = None\<rparr>]"
    by (simp add: busy_store_def item_of_row_def)
  show ?thesis
    using stats_read_masks_store_failures [of empty_store NoFault NoFault]
          stats_read_masks_store_failures [of busy_store "Fails timeout_error" NoFault]
          stats_read_masks_store_failures [of busy_store NoFault NoFault] e t a h
    by simp
qed

lemma writeStats_eq:
  "writeStats s f now stats =
     (case f of
        NoFault \<Rightarrow> (Returns (), s\<lparr>global_stats := Some (stored_row stats now)\<rparr>)
      | Fails e \<Rightarrow> (Throws (db_message e), s)
      | Rejects m \<Rightarrow> (Throws m, s))"
  by (simp add: writeStats_def upsert_global_stats_def stored_row_def split: fault.splits)

lemma aggregate_stored_row:
  "aggregate (s\<lparr>global_stats := Some (stored_row stats now)\<rparr>) = counters stats"
  by (simp add: aggregate_def stored_row_def counters_def or0_def)

lemma counters_updatedStats: "counters (updatedStats stats res amt) = increment res amt (counters stats)"
  by (simp add: counters_def updatedStats_def increment_def)

lemma apply_round_insert_rejects:
  "insert_history env = Rejects m \<Longrightarrow>
     apply_round env s res amt wallet =
       (stats_error 500 (or_else (Some m) ''Failed to update stats''), s)"
  by (simp add: apply_round_def insert_game_history_def Let_def)

lemma apply_round_upsert_fails:
  assumes "\<forall>m. insert_history env \<noteq> Rejects m"
      and "upsert_stats env = Fails e"
  shows "apply_round env s res amt wallet =
           (stats_error 500 (or_else (Some (db_message e)) ''Failed to update stats''),
            if insert_history env = NoFault
            then s\<lparr>game_history := game_history s @ [new_history_row env res amt wallet]\<rparr>
            else s)"
  using assms
  by (cases "insert_history env")
     (simp_all add: apply_round_def insert_game_history_def writeStats_eq Let_def)

lemma apply_round_upsert_rejects:
  assumes "\<forall>m. insert_history env \<noteq> Rejects m"
      and "upsert_stats env = Rejects m'"
  shows "apply_round env s res amt wallet =
           (stats_error 500 (or_else (Some m') ''Failed to update stats''),
            if insert_history env = NoFault
            then s\<lparr>game_history := game_history s @ [new_history_row env res amt wallet]\<rparr>
            else s)"
  using assms
  by (cases "insert_history env")
     (simp_all add: apply_round_def insert_game_history_def writeStats_eq Let_def)

lemma apply_round_upsert_served:
  assumes "\<forall>m. insert_history env \<noteq> Rejects m"
      and "upsert_stats env = NoFault"
  shows "apply_round env s res amt wallet =
           (let s1 = (if insert_history env = NoFault
                      then s\<lparr>game_history := game_history s @ [new_history_row env res amt wallet]\<rparr>
                      else s);
                s2 = s1\<lparr>global_stats := Some (stored_row
                           (updatedStats (readStats s (read1_stats env) (read1_history env)) res amt)
                           (upsert_time env))\<rparr>
            in (\<lparr>st_status = 200, st_error = None, st_success = Some True,
                 st_stats = Some (readStats s2 (read2_stats env) (read2_history env))\<rparr>, s2))"
  using assms
  by (cases "insert_history env")
     (simp_all add: apply_round_def insert_game_history_def writeStats_eq Let_def)

lemma counters_read_finish_stored:
  "\<forall>m. f \<noteq> Rejects m \<Longrightarrow> counters (read_finish s f (Some (stored_row stats now))) = counters stats"
  by (cases f)
     (auto simp: read_finish_def select_game_history_def counters_def stored_row_def or0_def
        Let_def split: option.splits)

lemma POST_stats_validated:
  assumes "body_result body = Some res" "res = ''win'' \<or> res = ''loss''"
          "body_amount body = Some amt" "amt \<noteq> 0"
  shows "POST_stats env s (Returns body) = apply_round env s res amt (body_playerWallet body)"
  using assms by (auto simp: POST_stats_def)

lemma or_else_nonempty: "d \<noteq> [] \<Longrightarrow> or_else a d \<noteq> []"
  by (simp add: or_else_def split: option.splits)

text \<open>
  Claim C9, as the code has it. The statistics write answers with the client error 400
  precisely when the outcome is not exactly win or loss, or the amount is absent or zero
  (the check is \<^verbatim>\<open>!amount\<close>, which a present amount of 0 fails too); the store is then
  untouched. Every other request passes the check and is applied: when the insert does
  not reject and the upsert is served, the answer is a success and the stored aggregate
  is the one read, incremented for this round.
\<close>

theorem stats_write_rejects_exactly_falsy_input:
  "(case POST_stats env s (Returns body) of (resp, s') \<Rightarrow>
      (st_status resp = 400 \<longleftrightarrow>
         (body_result body \<noteq> Some ''win'' \<and> body_result body \<noteq> Some ''loss'') \<or>
         body_amount body = None \<or> body_amount body = Some 0) \<and>
      (st_status resp = 400 \<longrightarrow> resp = stats_error 400 ''Invalid request data'' \<and> s' = s) \<and>
      (st_status resp \<noteq> 400 \<and> (\<forall>m. insert_history env \<noteq> Rejects m) \<and> upsert_stats env = NoFault
         \<longrightarrow> st_status resp = 200 \<and> st_success resp = Some True \<and>
             (\<exists>res amt.
                body_result body = Some res \<and> body_amount body = Some amt \<and>
                aggregate s' =
                  increment res amt
                    (counters (readStats s (read1_stats env) (read1_history env))))))"
proof (cases "(body_result body \<noteq> Some ''win'' \<and> body_result body \<noteq> Some ''loss'') \<or>
              body_amount body = None \<or> body_amount body = Some 0")
  case True
  then have "POST_stats env s (Returns body) = (stats_error 400 ''Invalid request data'', s)"
    by (auto simp: POST_stats_def split: option.splits)
  then show ?thesis
    using True by (simp add: stats_error_def)
next
  case False
  then obtain res amt where b: "body_result body = Some res" "res = ''win'' \<or> res = ''loss''"
      "body_amount body = Some amt" "amt \<noteq> 0"
    by (cases "body_result body"; cases "body_amount body") auto
  have p: "POST_stats env s (Returns body) = apply_round env s res amt (body_playerWallet body)"
    by (rule POST_stats_validated [OF b])
  have n: "st_status (fst (apply_round env s res amt (body_playerWallet body))) \<noteq> 400"
  proof (cases "\<forall>m. insert_history env \<noteq> Rejects m")
    case False
    then show ?thesis
      by (auto simp: apply_round_insert_rejects stats_error_def)
  next
    case True
    then show ?thesis
      by (cases "upsert_stats env")
         (simp_all add: apply_round_upsert_served apply_round_upsert_fails
            apply_round_upsert_rejects stats_error_def Let_def)
  qed
  have a: "st_status (fst (apply_round env s res amt (body_playerWallet body))) = 200 \<and>
           st_success (fst (apply_round env s res amt (body_playerWallet body))) = Some True \<and>
           aggregate (snd (apply_round env s res amt (body_playerWallet body))) =
             increment res amt (counters (readStats s (read1_stats env) (read1_history env)))"
    if "\<forall>m. insert_history env \<noteq> Rejects m" "upsert_stats env = NoFault"
    by (simp add: apply_round_upsert_served [OF that] Let_def aggregate_stored_row
          counters_updatedStats)
  show ?thesis
    using False n a b by (simp add: p case_prod_beta)
qed

text \<open>Against the claim as first stated: the outcome is win and the amount is present,
  but it is 0, and the write is rejected.\<close>

theorem stats_write_zero_amount_counterexample:
  "body_result zero_body = Some ''win'' \<and> body_amount zero_body = Some 0 \<and>
   POST_stats quiet_env zero_store (Returns zero_body) =
     (stats_error 400 ''Invalid request data'', zero_store)"
  by (simp add: POST_stats_def zero_body_def)

lemma quiet_env_fields:
  "read1_stats quiet_env = NoFault" "read1_history quiet_env = NoFault"
  "insert_history quiet_env = NoFault" "upsert_stats quiet_env = NoFault"
  "read2_stats quiet_env = NoFault" "read2_history quiet_env = NoFault"
  "insert_time quiet_env = 7" "upsert_time quiet_env = 8"
  by (simp_all add: quiet_env_def)

lemma readStats_zero_store: "counters (readStats zero_store NoFault NoFault) = (0, 0, 0, 0)"
  by (simp add: readStats_NoFault read_finish_def select_game_history_def zero_store_def
        zero_row_def counters_def or0_def Let_def)

theorem stats_write_witness:
  "st_status (fst (POST_stats quiet_env zero_store (Returns win_body))) = 200 \<and>
   aggregate (snd (POST_stats quiet_env zero_store (Returns win_body))) = (1, 1 / 5, 1, 0) \<and>
   st_status (fst (POST_stats quiet_env zero_store (Returns zero_body))) = 400 \<and>
   snd (POST_stats quiet_env zero_store (Returns zero_body)) = zero_store"
proof -
  have z: "body_amount zero_body = Some 0"
    by (simp add: zero_body_def)
  have w: "body_result win_body = Some ''win''" "body_amount win_body = Some (1 / 5)"
    by (simp_all add: win_body_def)
  have i: "increment ''win'' (1 / 5) (0, 0, 0, 0) = (1, 1 / 5, 1, 0)"
    by (simp add: increment_def)
  have q: "\<forall>m. insert_history quiet_env \<noteq> Rejects m"
    by (simp add: quiet_env_fields)
  have served: "st_status (fst (POST_stats quiet_env zero_store (Returns win_body))) = 200 \<and>
      aggregate (snd (POST_stats quiet_env zero_store (Returns win_body))) = (1, 1 / 5, 1, 0)"
    using stats_write_rejects_exactly_falsy_input
            [where env = quiet_env and s = zero_store and body = win_body] w q
    by (auto simp: case_prod_beta quiet_env_fields readStats_zero_store increment_def
          stats_error_def)
  have rejected: "st_status (fst (POST_stats quiet_env zero_store (Returns zero_body))) = 400 \<and>
      snd (POST_stats quiet_env zero_store (Returns zero_body)) = zero_store"
    using stats_write_rejects_exactly_falsy_input
            [where env = quiet_env and s = zero_store and body = zero_body] z
    by (simp add: case_prod_beta)
  show ?thesis
    using served rejected by simp
qed

text \<open>
  Claim C6, as the code has it. A statistics write that passes the input check, and
  whose read of the aggregate, insert and upsert are served by the store, adds 1 to the
  stored total of bets, the round's amount to the total wagered and 1 to exactly the
  matching win or loss counter, and appends one history row; when the closing read is
  served too, the answer carries these counters and the history, newest first. (An
  accepted write whose insert is answered with an error appends no row.)
\<close>

theorem served_write_increments_and_appends:
  assumes "body_result body = Some res" "res = ''win'' \<or> res = ''loss''"
          "body_amount body = Some amt" "amt \<noteq> 0"
      and "read1_stats env = NoFault" "\<forall>m. read1_history env \<noteq> Rejects m"
          "insert_history env = NoFault" "upsert_stats env = NoFault"
  shows "(case POST_stats env s (Returns body) of (resp, s') \<Rightarrow>
           st_status resp = 200 \<and> st_success resp = Some True \<and>
           aggregate s' = increment res amt (aggregate s) \<and>
           game_history s' =
             game_history s @ [new_history_row env res amt (body_playerWallet body)] \<and>
           (read2_stats env = NoFault \<and> read2_history env = NoFault \<longrightarrow>
              (\<exists>stats. st_stats resp = Some stats \<and>
                 counters stats = increment res amt (aggregate s) \<and>
                 gameHistory stats =
                   map item_of_row (take 100 (rev (sort_key row_timestamp (game_history s')))))))"
proof -
  have i: "\<forall>m. insert_history env \<noteq> Rejects m"
    using assms(7) by simp
  have c: "counters (readStats s (read1_stats env) (read1_history env)) = aggregate s"
    using assms(5) counters_read_finish [OF assms(6), of s] by (simp add: readStats_NoFault)
  have p: "POST_stats env s (Returns body) = apply_round env s res amt (body_playerWallet body)"
    by (rule POST_stats_validated [OF assms(1-4)])
  have r: "counters (read_finish s2 NoFault (Some (stored_row stats now))) = counters stats"
    for s2 stats now
    by (rule counters_read_finish_stored) simp
  show ?thesis
    using assms(7) c
    by (simp add: p apply_round_upsert_served [OF i assms(8)] Let_def aggregate_stored_row
          counters_updatedStats readStats_NoFault r history_read_finish_NoFault)
qed

text \<open>Against the claim as first stated: the insert is answered with an error, the write
  is accepted and the counters are incremented, and no history row is appended.\<close>

theorem accepted_write_without_history_row_counterexample:
  "POST_stats (quiet_env\<lparr>insert_history := Fails check_error\<rparr>) zero_store (Returns win_body) =
     (\<lparr>st_status = 200, st_error = None, st_success = Some True,
       st_stats = Some \<lparr>totalBets = 1, totalWagered = 1 / 5, wins = 1, losses = 0,
                        gameHistory = []\<rparr>\<rparr>,
      \<lparr>global_stats = Some \<lparr>total_bets = Some 1, total_wagered = Some (1 / 5),
                             row_wins = Some 1, row_losses = Some 0, updated_at = 8\<rparr>,
       game_history = []\<rparr>) \<and>
   game_history zero_store = []"
  by (simp add: POST_stats_def win_body_def apply_round_def insert_game_history_def
        writeStats_eq stored_row_def updatedStats_def readStats_NoFault read_finish_def
        select_game_history_def quiet_env_def zero_store_def zero_row_def or0_def Let_def)

theorem served_write_example_witness:
  "aggregate zero_store = (0, 0, 0, 0) \<and>
   st_status (fst (POST_stats quiet_env zero_store (Returns win_body))) = 200 \<and>
   aggregate (snd (POST_stats quiet_env zero_store (Returns win_body))) = (1, 1 / 5, 1, 0) \<and>
   game_history (snd (POST_stats quiet_env zero_store (Returns win_body))) =
     [\<lparr>row_result = ''win'', row_amount = 1 / 5, player_wallet = None, row_timestamp = 7\<rparr>] \<and>
   st_stats (fst (POST_stats quiet_env zero_store (Returns win_body))) =
     Some \<lparr>totalBets = 1, totalWagered = 1 / 5, wins = 1, losses = 0,
           gameHistory = [\<lparr>item_result = ''win'', item_amount = 1 / 5, item_timestamp = 7,
                           item_playerWallet = None\<rparr>]\<rparr>"
proof -
  have w: "body_result win_body = Some ''win''" "''win'' = ''win'' \<or> ''win'' = ''loss''"
          "body_amount win_body = Some (1 / 5)" "(1 / 5 :: real) \<noteq> 0"
    by (simp_all add: win_body_def)
  have q: "read1_stats quiet_env = NoFault" "\<forall>m. read1_history quiet_env \<noteq> Rejects m"
          "insert_history quiet_env = NoFault" "upsert_stats quiet_env = NoFault"
    by (simp_all add: quiet_env_def)
  have z: "aggregate zero_store = (0, 0, 0, 0)" "game_history zero_store = []"
    by (simp_all add: aggregate_def zero_store_def zero_row_def or0_def)
  have i: "increment ''win'' (1 / 5) (0, 0, 0, 0) = (1, 1 / 5, 1, 0)"
    by (simp add: increment_def)
  have n: "new_history_row quiet_env ''win'' (1 / 5) (body_playerWallet win_body) =
      \<lparr>row_result = ''win'', row_amount = 1 / 5, player_wallet = None, row_timestamp = 7\<rparr>"
    by (simp add: new_history_row_def win_body_def quiet_env_def)
  note t = served_write_increments_and_appends [OF w q, of zero_store]
  have g: "game_history (snd (POST_stats quiet_env zero_store (Returns win_body))) =
      [\<lparr>row_result = ''win'', row_amount = 1 / 5, player_wallet = None, row_timestamp = 7\<rparr>]"
    using t z n by (simp add: case_prod_beta)
  obtain stats where s: "st_stats (fst (POST_stats quiet_env zero_store (Returns win_body))) = Some stats"
      "counters stats = (1, 1 / 5, 1, 0)"
      "gameHistory stats =
         map item_of_row (take 100 (rev (sort_key row_timestamp
           (game_history (snd (POST_stats quiet_env zero_store (Returns win_body)))))))"
    using t z i by (auto simp: case_prod_beta quiet_env_fields)
  have h: "gameHistory stats = [\<lparr>item_result = ''win'', item_amount = 1 / 5, item_timestamp = 7,
                                 item_playerWallet = None\<rparr>]"
    using s(3) by (simp add: g item_of_row_def)
  have "stats = \<lparr>totalBets = 1, totalWagered = 1 / 5, wins = 1, losses = 0,
           gameHistory = [\<lparr>item_result = ''win'', item_amount = 1 / 5, item_timestamp = 7,
                           item_playerWallet = None\<rparr>]\<rparr>"
    using s(2) h by (cases stats) (simp add: counters_def)
  then show ?thesis
    using t z i g s(1) by (simp add: case_prod_beta)
qed

text \<open>
  Beside the claim: the write increments what \<open>readStats\<close> returned, and that is the
  zero-valued default when the read of the aggregate failed. Such a write is accepted
  and replaces the stored totals by those of one round.
\<close>

lemma write_after_failed_read_restarts_totals:
  "aggregate busy_store = (5, 1, 3, 2) \<and>
   st_status (fst (POST_stats (quiet_env\<lparr>read1_stats := Fails timeout_error\<rparr>) busy_store
                     (Returns win_body))) = 200 \<and>
   aggregate (snd (POST_stats (quiet_env\<lparr>read1_stats := Fails timeout_error\<rparr>) busy_store
                     (Returns win_body))) = (1, 1 / 5, 1, 0)"
  by (simp add: POST_stats_def win_body_def apply_round_def insert_game_history_def
        writeStats_eq stored_row_def updatedStats_def readStats_def read_begin_Fails
        timeout_error_def defaultStats_def aggregate_def busy_store_def quiet_env_def or0_def
        Let_def)

text \<open>
  Claim C7. Within a statistics write that passed the input check: when the insert of the
  history row is answered with an error, no row is added, the upsert still takes place
  and, when it is served, the call succeeds with the incremented aggregate. When the
  upsert fails (error or rejection) the call answers with the server error 500 and the
  error's text, the aggregate is unchanged, and a history row whose insert was served
  stays appended.
\<close>

theorem history_failure_swallowed_aggregate_failure_propagated:
  assumes "body_result body = Some res" "res = ''win'' \<or> res = ''loss''"
          "body_amount body = Some amt" "amt \<noteq> 0"
  shows "(case POST_stats env s (Returns body) of (resp, s') \<Rightarrow>
           (\<forall>e. insert_history env = Fails e \<longrightarrow>
              game_history s' = game_history s \<and>
              (upsert_stats env = NoFault \<longrightarrow>
                 st_status resp = 200 \<and> st_success resp = Some True \<and>
                 aggregate s' =
                   increment res amt
                     (counters (readStats s (read1_stats env) (read1_history env))))) \<and>
           ((\<forall>m. insert_history env \<noteq> Rejects m) \<and> upsert_stats env \<noteq> NoFault \<longrightarrow>
              st_status resp = 500 \<and> st_success resp = None \<and> st_stats resp = None \<and>
              (\<exists>msg. st_error resp = Some msg \<and> msg \<noteq> []) \<and>
              (\<forall>e. upsert_stats env = Fails e \<longrightarrow>
                 st_error resp = Some (or_else (Some (db_message e)) ''Failed to update stats'')) \<and>
              global_stats s' = global_stats s \<and>
              (insert_history env = NoFault \<longrightarrow>
                 game_history s' =
                   game_history s @ [new_history_row env res amt (body_playerWallet body)])))"
proof -
  have p: "POST_stats env s (Returns body) = apply_round env s res amt (body_playerWallet body)"
    by (rule POST_stats_validated [OF assms])
  have d: "or_else a ''Failed to update stats'' \<noteq> []" for a
    by (rule or_else_nonempty) simp
  show ?thesis
  proof (cases "\<forall>m. insert_history env \<noteq> Rejects m")
    case False
    then show ?thesis
      by (auto simp: p apply_round_insert_rejects)
  next
    case True
    show ?thesis
    proof (cases "upsert_stats env")
      case NoFault
      then show ?thesis
        by (auto simp: p apply_round_upsert_served [OF True NoFault] Let_def
              aggregate_stored_row counters_updatedStats)
    next
      case (Fails e)
      then show ?thesis
        using d by (auto simp: p apply_round_upsert_fails [OF True Fails] stats_error_def)
    next
      case (Rejects m)
      then show ?thesis
        using d by (auto simp: p apply_round_upsert_rejects [OF True Rejects] stats_error_def)
    qed
  qed
qed

theorem history_and_aggregate_failure_witness:
  "insert_history (quiet_env\<lparr>insert_history := Fails check_error\<rparr>) = Fails check_error \<and>
   st_status (fst (POST_stats (quiet_env\<lparr>insert_history := Fails check_error\<rparr>) busy_store
                     (Returns win_body))) = 200 \<and>
   aggregate (snd (POST_stats (quiet_env\<lparr>insert_history := Fails check_error\<rparr>) busy_store
                     (Returns win_body))) = (6, 6 / 5, 4, 2) \<and>
   game_history (snd (POST_stats (quiet_env\<lparr>insert_history := Fails check_error\<rparr>) busy_store
                     (Returns win_body))) = game_history busy_store \<and>
   upsert_stats (quiet_env\<lparr>upsert_stats := Fails timeout_error\<rparr>) = Fails timeout_error \<and>
   st_status (fst (POST_stats (quiet_env\<lparr>upsert_stats := Fails timeout_error\<rparr>) busy_store
                     (Returns win_body))) = 500 \<and>
   st_error (fst (POST_stats (quiet_env\<lparr>upsert_stats := Fails timeout_error\<rparr>) busy_store
                     (Returns win_body))) = Some ''canceling statement due to statement timeout'' \<and>
   global_stats (snd (POST_stats (quiet_env\<lparr>upsert_stats := Fails timeout_error\<rparr>) busy_store
                     (Returns win_body))) = global_stats busy_store \<and>
   game_history (snd (POST_stats (quiet_env\<lparr>upsert_stats := Fails timeout_error\<rparr>) busy_store
                     (Returns win_body))) =
     game_history busy_store @
       [\<lparr>row_result = ''win'', row_amount = 1 / 5, player_wallet = None, row_timestamp = 7\<rparr>]"
proof -
  have w: "body_result win_body = Some ''win''" "''win'' = ''win'' \<or> ''win'' = ''loss''"
          "body_amount win_body = Some (1 / 5)" "(1 / 5 :: real) \<noteq> 0"
    by (simp_all add: win_body_def)
  have c: "counters (readStats busy_store NoFault NoFault) = (5, 1, 3, 2)"
    by (simp add: readStats_NoFault read_finish_def select_game_history_def busy_store_def
          counters_def or0_def Let_def)
  have i: "increment ''win'' (1 / 5) (5, 1, 3, 2) = (6, 6 / 5, 4, 2)"
    by (simp add: increment_def)
  have n: "new_history_row (quiet_env\<lparr>upsert_stats := Fails timeout_error\<rparr>) ''win'' (1 / 5)
             (body_playerWallet win_body) =
      \<lparr>row_result = ''win'', row_amount = 1 / 5, player_wallet = None, row_timestamp = 7\<rparr>"
    by (simp add: new_history_row_def win_body_def quiet_env_def)
  have m: "or_else (Some (db_message timeout_error)) ''Failed to update stats'' =
      ''canceling statement due to statement timeout''"
    by (simp add: or_else_def timeout_error_def)
  have first:
    "st_status (fst (POST_stats (quiet_env\<lparr>insert_history := Fails check_error\<rparr>) busy_store
        (Returns win_body))) = 200 \<and>
     aggregate (snd (POST_stats (quiet_env\<lparr>insert_history := Fails check_error\<rparr>) busy_store
        (Returns win_body))) = (6, 6 / 5, 4, 2) \<and>
     game_history (snd (POST_stats (quiet_env\<lparr>insert_history := Fails check_error\<rparr>) busy_store
        (Returns win_body))) = game_history busy_store"
    using history_failure_swallowed_aggregate_failure_propagated
            [OF w, of "quiet_env\<lparr>insert_history := Fails check_error\<rparr>" busy_store] c i
    by (simp add: case_prod_beta quiet_env_fields)
  have second:
    "st_status (fst (POST_stats (quiet_env\<lparr>upsert_stats := Fails timeout_error\<rparr>) busy_store
        (Returns win_body))) = 500 \<and>
     st_error (fst (POST_stats (quiet_env\<lparr>upsert_stats := Fails timeout_error\<rparr>) busy_store
        (Returns win_body))) = Some ''canceling statement due to statement timeout'' \<and>
     global_stats (snd (POST_stats (quiet_env\<lparr>upsert_stats := Fails timeout_error\<rparr>) busy_store
        (Returns win_body))) = global_stats busy_store \<and>
     game_history (snd (POST_stats (quiet_env\<lparr>upsert_stats := Fails timeout_error\<rparr>) busy_store
        (Returns win_body))) =
       game_history busy_store @
         [\<lparr>row_result = ''win'', row_amount = 1 / 5, player_wallet = None, row_timestamp = 7\<rparr>]"
    using history_failure_swallowed_aggregate_failure_propagated
            [OF w, of "quiet_env\<lparr>upsert_stats := Fails timeout_error\<rparr>" busy_store] n m
    by (simp add: case_prod_beta quiet_env_fields)
  show ?thesis
    using first second by simp
qed

section \<open>Properties of interleaved statistics writes\<close>

lemma run_round_alone:
  "run_round (env, res, amt, wallet) 6 (AtReadStats1, s) =
     (Finished (fst (apply_round env s res amt wallet)), snd (apply_round env s res amt wallet))"
proof -
  have six: "(6::nat) = Suc (Suc (Suc (Suc (Suc (Suc 0)))))"
    by simp
  show ?thesis
    unfolding six
    by (simp add: apply_round_def readStats_def Let_def
          split: sum.splits prod.splits outcome.splits)
qed

lemma interleave_append:
  "interleave ra rb (xs @ ys) st = interleave ra rb ys (interleave ra rb xs st)"
proof (induction xs arbitrary: st)
  case Nil
  then show ?case by simp
next
  case (Cons t xs)
  obtain pa pb s where st: "st = (pa, pb, s)"
    by (cases st)
  show ?case
    by (cases t) (simp_all add: st Cons.IH split: prod.splits)
qed

lemma interleave_First:
  "interleave ra rb (replicate n First) (pa, pb, s) =
     (fst (run_round ra n (pa, s)), pb, snd (run_round ra n (pa, s)))"
  by (induction n arbitrary: pa s) (simp_all split: prod.splits)

lemma interleave_Second:
  "interleave ra rb (replicate n Second) (pa, pb, s) =
     (pa, fst (run_round rb n (pb, s)), snd (run_round rb n (pb, s)))"
  by (induction n arbitrary: pb s) (simp_all split: prod.splits)

lemma apply_round_no_faults:
  assumes "no_faults env"
  shows "st_status (fst (apply_round env s res amt wallet)) = 200 \<and>
         aggregate (snd (apply_round env s res amt wallet)) = increment res amt (aggregate s)"
proof -
  have f: "read1_stats env = NoFault" "read1_history env = NoFault"
          "\<forall>m. insert_history env \<noteq> Rejects m" "upsert_stats env = NoFault"
          "insert_history env = NoFault"
    using assms by (simp_all add: no_faults_def)
  have c: "counters (readStats s (read1_stats env) (read1_history env)) = aggregate s"
    using counters_read_finish [of NoFault s] by (simp add: f readStats_NoFault)
  show ?thesis
    by (simp add: apply_round_upsert_served [OF f(3,4)] Let_def aggregate_stored_row
          counters_updatedStats c)
qed

lemma increment_win_loss:
  "increment ''loss'' b (increment ''win'' a (0, 0, 0, 0)) = (2, a + b, 1, 1)"
  "increment ''win'' a (increment ''loss'' b (0, 0, 0, 0)) = (2, a + b, 1, 1)"
  by (simp_all add: increment_def)

text \<open>
  Claim C10, as the code has it. Two statistics writes, one for a win and one for a loss,
  from a zero-valued aggregate and served without faults, leave the aggregate at 2 bets,
  1 win and 1 loss when one runs after the other, in either order. The handler reads
  the aggregate and later writes the incremented copy back, so nothing of the kind holds
  when the store requests of the two writes interleave: the counterexample below is a
  schedule after which one update is lost.
\<close>

theorem writes_one_after_the_other_converge:
  assumes "no_faults ea" "no_faults eb" "aggregate s = (0, 0, 0, 0)" "a \<noteq> 0" "b \<noteq> 0"
  shows "aggregate (snd (POST_stats eb
             (snd (POST_stats ea s
                (Returns \<lparr>body_result = Some ''win'', body_amount = Some a, body_playerWallet = wa\<rparr>)))
             (Returns \<lparr>body_result = Some ''loss'', body_amount = Some b, body_playerWallet = wb\<rparr>)))
           = (2, a + b, 1, 1) \<and>
         aggregate (snd (POST_stats ea
             (snd (POST_stats eb s
                (Returns \<lparr>body_result = Some ''loss'', body_amount = Some b, body_playerWallet = wb\<rparr>)))
             (Returns \<lparr>body_result = Some ''win'', body_amount = Some a, body_playerWallet = wa\<rparr>)))
           = (2, a + b, 1, 1) \<and>
         aggregate (snd (snd (interleave (ea, ''win'', a, wa) (eb, ''loss'', b, wb)
             (replicate 6 First @ replicate 6 Second) (AtReadStats1, AtReadStats1, s))))
           = (2, a + b, 1, 1) \<and>
         aggregate (snd (snd (interleave (ea, ''win'', a, wa) (eb, ''loss'', b, wb)
             (replicate 6 Second @ replicate 6 First) (AtReadStats1, AtReadStats1, s))))
           = (2, a + b, 1, 1)"
proof -
  have pw: "POST_stats env t
      (Returns \<lparr>body_result = Some ''win'', body_amount = Some a, body_playerWallet = wa\<rparr>) =
      apply_round env t ''win'' a wa" for env t
    using assms(4) by (simp add: POST_stats_def)
  have pl: "POST_stats env t
      (Returns \<lparr>body_result = Some ''loss'', body_amount = Some b, body_playerWallet = wb\<rparr>) =
      apply_round env t ''loss'' b wb" for env t
    using assms(5) by (simp add: POST_stats_def)
  have wl: "aggregate (snd (apply_round eb (snd (apply_round ea s ''win'' a wa)) ''loss'' b wb)) =
      (2, a + b, 1, 1)"
    using apply_round_no_faults [OF assms(1), of s "''win''" a wa]
          apply_round_no_faults [OF assms(2), of "snd (apply_round ea s ''win'' a wa)" "''loss''" b wb]
    by (simp add: assms(3) increment_win_loss)
  have lw: "aggregate (snd (apply_round ea (snd (apply_round eb s ''loss'' b wb)) ''win'' a wa)) =
      (2, a + b, 1, 1)"
    using apply_round_no_faults [OF assms(2), of s "''loss''" b wb]
          apply_round_no_faults [OF assms(1), of "snd (apply_round eb s ''loss'' b wb)" "''win''" a wa]
    by (simp add: assms(3) increment_win_loss)
  show ?thesis
    by (simp add: pw pl wl lw interleave_append interleave_First interleave_Second
          run_round_alone)
qed

text \<open>Against the claim as first stated: no request fails, both writes answer with a
  success, and the aggregate ends at 1 bet, 0 wins and 1 loss.\<close>

theorem interleaved_writes_lose_an_update_counterexample:
  "aggregate zero_store = (0, 0, 0, 0) \<and> no_faults quiet_env \<and> no_faults later_env \<and>
   interleave (quiet_env, ''win'', 1 / 5, None) (later_env, ''loss'', 3 / 10, Some ''Bob'')
       lost_update_schedule (AtReadStats1, AtReadStats1, zero_store) =
     (Finished \<lparr>st_status = 200, st_error = None, st_success = Some True,
                 st_stats = Some \<lparr>totalBets = 1, totalWagered = 3 / 10, wins = 0, losses = 1,
                   gameHistory =
                     [\<lparr>item_result = ''loss'', item_amount = 3 / 10, item_timestamp = 9,
                       item_playerWallet = Some ''Bob''\<rparr>,
                      \<lparr>item_result = ''win'', item_amount = 1 / 5, item_timestamp = 7,
                       item_playerWallet = None\<rparr>]\<rparr>\<rparr>,
      Finished \<lparr>st_status = 200, st_error = None, st_success = Some True,
                 st_stats = Some \<lparr>totalBets = 1, totalWagered = 3 / 10, wins = 0, losses = 1,
                   gameHistory =
                     [\<lparr>item_result = ''loss'', item_amount = 3 / 10, item_timestamp = 9,
                       item_playerWallet = Some ''Bob''\<rparr>,
                      \<lparr>item_result = ''win'', item_amount = 1 / 5, item_timestamp = 7,
                       item_playerWallet = None\<rparr>]\<rparr>\<rparr>,
      \<lparr>global_stats = Some \<lparr>total_bets = Some 1, total_wagered = Some (3 / 10),
                             row_wins = Some 0, row_losses = Some 1, updated_at = 10\<rparr>,
       game_history =
         [\<lparr>row_result = ''win'', row_amount = 1 / 5, player_wallet = None, row_timestamp = 7\<rparr>,
          \<lparr>row_result = ''loss'', row_amount = 3 / 10, player_wallet = Some ''Bob'',
            row_timestamp = 9\<rparr>]\<rparr>)"
  by (simp add: lost_update_schedule_def aggregate_def no_faults_def later_env_def
        quiet_env_def zero_store_def zero_row_def read_begin_NoFault read_finish_def
        select_game_history_def insert_game_history_def writeStats_eq stored_row_def
        updatedStats_def new_history_row_def item_of_row_def or0_def Let_def)

theorem writes_one_after_the_other_witness:
  "no_faults quiet_env \<and> no_faults later_env \<and> aggregate zero_store = (0, 0, 0, 0) \<and>
   aggregate (snd (POST_stats later_env
       (snd (POST_stats quiet_env zero_store (Returns win_body))) (Returns loss_body))) =
     (2, 1 / 5 + 3 / 10, 1, 1) \<and>
   aggregate (snd (POST_stats quiet_env
       (snd (POST_stats later_env zero_store (Returns loss_body))) (Returns win_body))) =
     (2, 1 / 5 + 3 / 10, 1, 1)"
proof -
  have q: "no_faults quiet_env" "no_faults later_env"
    by (simp_all add: no_faults_def later_env_def quiet_env_def)
  have z: "aggregate zero_store = (0, 0, 0, 0)"
    by (simp add: aggregate_def zero_store_def zero_row_def or0_def)
  have n: "(1 / 5 :: real) \<noteq> 0" "(3 / 10 :: real) \<noteq> 0"
    by simp_all
  show ?thesis
    using writes_one_after_the_other_converge [OF q z n, of None "Some ''Bob''"] q z
    by (simp add: win_body_def loss_body_def)
qed

end
